theory Spec2Isabelle
  imports Main "HOL-Library.Word"
begin

section \<open>Python strings\<close>

text \<open>
  A Python \<open>str\<close> is a sequence of Unicode code points. An Isabelle \<open>char\<close> is a
  byte, and the program needs code points beyond one byte (the bullet U+2022, the
  whitespace that \<open>str.strip\<close> removes), so a string is modelled as the list of its code
  points. \<open>py\<close> turns an ASCII literal into such a list.
\<close>

type_synonym pystr = "nat list"

definition py :: "string \<Rightarrow> pystr" where
  "py cs = map of_char cs"

text \<open>
  The characters \<open>str.strip()\<close> removes when called without an argument: those for which
  \<open>str.isspace\<close> holds (CPython's \<open>_PyUnicode_IsWhitespace\<close>).
\<close>

definition isspace :: "nat \<Rightarrow> bool" where
  "isspace c \<longleftrightarrow>
     (0x09 \<le> c \<and> c \<le> 0x0D) \<or> (0x1C \<le> c \<and> c \<le> 0x20) \<or> c = 0x85 \<or> c = 0xA0 \<or>
     c = 0x1680 \<or> (0x2000 \<le> c \<and> c \<le> 0x200A) \<or> c = 0x2028 \<or> c = 0x2029 \<or>
     c = 0x202F \<or> c = 0x205F \<or> c = 0x3000"

definition lstrip :: "pystr \<Rightarrow> pystr" where
  "lstrip s = dropWhile isspace s"

definition rstrip :: "pystr \<Rightarrow> pystr" where
  "rstrip s = rev (dropWhile isspace (rev s))"

definition strip :: "pystr \<Rightarrow> pystr" where
  "strip s = rstrip (lstrip s)"

definition startswith :: "pystr \<Rightarrow> pystr \<Rightarrow> bool" where
  "startswith s p \<longleftrightarrow> take (length p) s = p"

definition endswith :: "pystr \<Rightarrow> pystr \<Rightarrow> bool" where
  "endswith s p \<longleftrightarrow> startswith (rev s) (rev p)"

text \<open>\<open>p in s\<close>: \<open>p\<close> occurs in \<open>s\<close> as a contiguous substring.\<close>

fun contains :: "pystr \<Rightarrow> pystr \<Rightarrow> bool" where
  "contains [] p = (p = [])"
| "contains (c # cs) p = (startswith (c # cs) p \<or> contains cs p)"

text \<open>
  \<open>s.replace(old, new)\<close>: every occurrence of \<open>old\<close> is replaced, scanning from the left
  and resuming after each occurrence replaced (occurrences do not overlap). With an empty
  \<open>old\<close>, Python inserts \<open>new\<close> before every character and at the end.
\<close>

fun replace :: "pystr \<Rightarrow> pystr \<Rightarrow> pystr \<Rightarrow> pystr" where
  "replace [] old new = (if old = [] then new else [])"
| "replace (c # cs) old new =
     (if old = [] then new @ c # replace cs old new
      else if startswith (c # cs) old then new @ replace (drop (length old) (c # cs)) old new
      else c # replace cs old new)"

text \<open>\<open>sep.join(xs)\<close>.\<close>

fun join :: "pystr \<Rightarrow> pystr list \<Rightarrow> pystr" where
  "join sep [] = []"
| "join sep [x] = x"
| "join sep (x # y # ys) = x @ sep @ join sep (y # ys)"

section \<open>Normalising a model reply\<close>

text \<open>
  The three tabs of \<open>main.py\<close> (lines 265-269, 306-310 and 345-349) prepare a raw reply
  for \<open>json.loads\<close> with the same five lines:
  \<^verbatim>\<open>
  raw_output = feedback_raw.strip()
  if raw_output.startswith('```json'):
      raw_output = raw_output.replace('```json', '').replace('```', '').strip()
  elif raw_output.startswith('```'):
      raw_output = raw_output.replace('```', '').strip()
  \<close>
\<close>

definition fence :: pystr where
  "fence = py ''```''"

definition fence_json :: pystr where
  "fence_json = py ''```json''"

definition normalize_reply :: "pystr \<Rightarrow> pystr" where
  "normalize_reply raw =
     (let raw_output = strip raw in
      if startswith raw_output fence_json
        then strip (replace (replace raw_output fence_json []) fence [])
      else if startswith raw_output fence
        then strip (replace raw_output fence [])
      else raw_output)"

text \<open>
  The reply forms of the specification: the text \<open>t\<close> inside a fence tagged \<open>json\<close>, and
  inside a plain fence, each on lines of its own.
\<close>

definition fenced_json :: "pystr \<Rightarrow> pystr" where
  "fenced_json t = py ''```json\<newline>'' @ t @ py ''\<newline>```''"

definition fenced :: "pystr \<Rightarrow> pystr" where
  "fenced t = py ''```\<newline>'' @ t @ py ''\<newline>```''"

section \<open>Exceptions\<close>

text \<open>
  An exception is a value: a function that can raise returns \<open>exn + 'a\<close>, with \<open>Inl\<close>
  for the exception. Only the class of the exception is kept, except for the exceptions of
  the external libraries (PyMuPDF, python-docx, reportlab), which carry their message.
\<close>

datatype exn =
    JSONDecodeError
  | AttributeError
  | TypeError
  | UnicodeDecodeError
  | LibraryError pystr

definition bind :: "exn + 'a \<Rightarrow> ('a \<Rightarrow> exn + 'b) \<Rightarrow> exn + 'b" where
  "bind m f = (case m of Inl e \<Rightarrow> Inl e | Inr x \<Rightarrow> f x)"

section \<open>JSON values\<close>

text \<open>
  What \<open>json.loads\<close> returns: \<open>None\<close>, a \<open>bool\<close>, an \<open>int\<close>, a \<open>float\<close>, a \<open>str\<close>, a
  \<open>list\<close> or a \<open>dict\<close> with string keys, in insertion order. A float is kept as the
  decimal it was read from, \<open>Decimal neg m e\<close> for \<open>(-1)^neg * m * 10^e\<close>, and stands for
  the binary64 value nearest to it; the constants \<open>Infinity\<close>, \<open>-Infinity\<close> and \<open>NaN\<close>,
  which \<open>json.loads\<close> accepts, are floats too.
\<close>

datatype pyfloat = Decimal bool nat int | Infinity bool | NaN

datatype json =
    JNull
  | JBool bool
  | JInt int
  | JFloat pyfloat
  | JStr pystr
  | JArr "json list"
  | JObj "(pystr \<times> json) list"

text \<open>\<open>d[k] = v\<close>: a key already present keeps its position.\<close>

fun dict_set :: "(pystr \<times> json) list \<Rightarrow> pystr \<Rightarrow> json \<Rightarrow> (pystr \<times> json) list" where
  "dict_set [] k v = [(k, v)]"
| "dict_set ((k', v') # d) k v = (if k' = k then (k, v) # d else (k', v') # dict_set d k v)"

text \<open>The dict of a list of pairs: of a repeated key the last value stands.\<close>

definition dict :: "(pystr \<times> json) list \<Rightarrow> (pystr \<times> json) list" where
  "dict pairs = foldl (\<lambda>d (k, v). dict_set d k v) [] pairs"

section \<open>The JSON decoder\<close>

text \<open>
  \<open>json.loads\<close> belongs to the standard library, not to the repository; it is modelled
  after CPython's decoder (\<open>json/decoder.py\<close> and the scanner of \<open>_json.c\<close>) in its default
  configuration: strict strings, no hooks. Only the fact that decoding failed is kept, not
  the message or the position. The interpreter's recursion limit, which makes CPython
  raise \<open>RecursionError\<close> on very deeply nested input, is not modelled.
\<close>

definition json_ws :: "nat \<Rightarrow> bool" where
  "json_ws c \<longleftrightarrow> c = 0x20 \<or> c = 0x09 \<or> c = 0x0A \<or> c = 0x0D"

definition skip_ws :: "pystr \<Rightarrow> pystr" where
  "skip_ws s = dropWhile json_ws s"

definition is_digit :: "nat \<Rightarrow> bool" where
  "is_digit c \<longleftrightarrow> 0x30 \<le> c \<and> c \<le> 0x39"

definition hexval :: "nat \<Rightarrow> nat option" where
  "hexval c =
     (if 0x30 \<le> c \<and> c \<le> 0x39 then Some (c - 0x30)
      else if 0x41 \<le> c \<and> c \<le> 0x46 then Some (c - 0x41 + 10)
      else if 0x61 \<le> c \<and> c \<le> 0x66 then Some (c - 0x61 + 10)
      else None)"

definition hex4 :: "pystr \<Rightarrow> nat option" where
  "hex4 s =
     (case s of
        a # b # c # d # _ \<Rightarrow>
          (case (hexval a, hexval b, hexval c, hexval d) of
             (Some w, Some x, Some y, Some z) \<Rightarrow> Some (((w * 16 + x) * 16 + y) * 16 + z)
           | _ \<Rightarrow> None)
      | _ \<Rightarrow> None)"

text \<open>
  The character a one-letter escape stands for: the letter is a quote, a backslash, a
  slash, or one of \<open>b f n r t\<close>.
\<close>

definition unescape :: "nat \<Rightarrow> nat option" where
  "unescape e =
     (if e = 0x22 then Some 0x22
      else if e = 0x5C then Some 0x5C
      else if e = 0x2F then Some 0x2F
      else if e = 0x62 then Some 0x08
      else if e = 0x66 then Some 0x0C
      else if e = 0x6E then Some 0x0A
      else if e = 0x72 then Some 0x0D
      else if e = 0x74 then Some 0x09
      else None)"

text \<open>
  The escape after a backslash: the character it stands for and how many characters of
  the input it takes. A \<open>u\<close> escape takes four hexadecimal digits; a high surrogate followed
  by an escaped low surrogate is one character.
\<close>

definition escape :: "pystr \<Rightarrow> (nat \<times> nat) option" where
  "escape s =
     (case s of
        [] \<Rightarrow> None
      | e # es \<Rightarrow>
          if e = 0x75 then
            (case hex4 es of
               None \<Rightarrow> None
             | Some hi \<Rightarrow>
                 if 0xD800 \<le> hi \<and> hi \<le> 0xDBFF \<and> startswith (drop 4 es) [0x5C, 0x75] then
                   (case hex4 (drop 6 es) of
                      None \<Rightarrow> None
                    | Some lo \<Rightarrow>
                        if 0xDC00 \<le> lo \<and> lo \<le> 0xDFFF
                        then Some (0x10000 + (hi - 0xD800) * 0x400 + (lo - 0xDC00), 11)
                        else Some (hi, 5))
                 else Some (hi, 5))
          else map_option (\<lambda>ch. (ch, 1)) (unescape e))"

definition prepend :: "nat \<Rightarrow> exn + pystr \<times> pystr \<Rightarrow> exn + pystr \<times> pystr" where
  "prepend c res = (case res of Inl e \<Rightarrow> Inl e | Inr (s, r) \<Rightarrow> Inr (c # s, r))"

text \<open>
  The string whose opening quote has been read: its characters, and the input after the
  closing quote. A control character (below U+0020) is refused, as is an unknown escape
  and a string that does not end.
\<close>

fun scanstring :: "pystr \<Rightarrow> exn + pystr \<times> pystr" where
  "scanstring [] = Inl JSONDecodeError"
| "scanstring (c # cs) =
     (if c = 0x22 then Inr ([], cs)
      else if c = 0x5C then
        (case escape cs of
           None \<Rightarrow> Inl JSONDecodeError
         | Some (ch, n) \<Rightarrow> prepend ch (scanstring (drop n cs)))
      else if c < 0x20 then Inl JSONDecodeError
      else prepend c (scanstring cs))"

definition digits_val :: "pystr \<Rightarrow> nat" where
  "digits_val ds = foldl (\<lambda>a d. 10 * a + (d - 0x30)) 0 ds"

text \<open>
  The number at the head of \<open>s\<close>: an optional minus sign; then \<open>0\<close>, or a digit from 1
  to 9 and any digits; then, optionally, a point and at least one digit; then, optionally,
  \<open>e\<close> or \<open>E\<close>, an optional sign and at least one digit. It is an \<open>int\<close> when it has
  neither a fraction nor an exponent, a \<open>float\<close> otherwise.
\<close>

definition match_number :: "pystr \<Rightarrow> (json \<times> pystr) option" where
  "match_number s =
     (let neg = (s \<noteq> [] \<and> startswith s [0x2D]);
          s1 = (if neg then tl s else s)
      in case s1 of
           [] \<Rightarrow> None
         | d # ds \<Rightarrow>
             if \<not> is_digit d then None
             else
               let ip = (if d = 0x30 then [d] else takeWhile is_digit s1);
                   r1 = drop (length ip) s1;
                   has_frac = (case r1 of p # f # _ \<Rightarrow> p = 0x2E \<and> is_digit f | _ \<Rightarrow> False);
                   fp = (if has_frac then takeWhile is_digit (tl r1) else []);
                   r2 = (if has_frac then drop (Suc (length fp)) r1 else r1);
                   has_e = (case r2 of e # _ \<Rightarrow> e = 0x65 \<or> e = 0x45 | _ \<Rightarrow> False);
                   signed = (case tl r2 of g # _ \<Rightarrow> g = 0x2B \<or> g = 0x2D | _ \<Rightarrow> False);
                   eneg = (case tl r2 of g # _ \<Rightarrow> g = 0x2D | _ \<Rightarrow> False);
                   r3 = (if signed then tl (tl r2) else tl r2);
                   ep = (if has_e then takeWhile is_digit r3 else []);
                   has_exp = (ep \<noteq> []);
                   r4 = (if has_exp then drop (length ep) r3 else r2);
                   ex = (if eneg then - int (digits_val ep) else int (digits_val ep))
               in if has_frac \<or> has_exp
                  then Some (JFloat (Decimal neg (digits_val (ip @ fp)) (ex - int (length fp))), r4)
                  else Some (JInt (if neg then - int (digits_val ip) else int (digits_val ip)), r4))"

definition match_constant :: "pystr \<Rightarrow> (json \<times> pystr) option" where
  "match_constant s =
     (if startswith s (py ''null'') then Some (JNull, drop 4 s)
      else if startswith s (py ''true'') then Some (JBool True, drop 4 s)
      else if startswith s (py ''false'') then Some (JBool False, drop 5 s)
      else if startswith s (py ''NaN'') then Some (JFloat NaN, drop 3 s)
      else if startswith s (py ''Infinity'') then Some (JFloat (Infinity False), drop 8 s)
      else if startswith s (py ''-Infinity'') then Some (JFloat (Infinity True), drop 9 s)
      else match_number s)"

text \<open>
  \<open>scan_once\<close> reads the value at the head of the input and returns it with the rest of
  the input; \<open>parse_array\<close> and \<open>parse_object\<close> read the elements of a non-empty array
  and the members of a non-empty object up to the closing bracket. An object is the
  \<open>dict\<close> of its members. The test \<open>length ds < length s\<close> before the next element is
  there for the termination proof only: it always holds (\<open>parse_array_unfold\<close> and
  \<open>parse_object_unfold\<close> below).
\<close>

function scan_once :: "pystr \<Rightarrow> exn + json \<times> pystr"
  and parse_array :: "pystr \<Rightarrow> exn + json list \<times> pystr"
  and parse_object :: "pystr \<Rightarrow> exn + (pystr \<times> json) list \<times> pystr"
where
  "scan_once s =
     (case s of
        [] \<Rightarrow> Inl JSONDecodeError
      | c # cs \<Rightarrow>
          if c = 0x22 then
            (case scanstring cs of
               Inl e \<Rightarrow> Inl e
             | Inr (str, r) \<Rightarrow> Inr (JStr str, r))
          else if c = 0x7B then
            (case skip_ws cs of
               [] \<Rightarrow> Inl JSONDecodeError
             | d # ds \<Rightarrow>
                 if d = 0x7D then Inr (JObj [], ds)
                 else
                   (case parse_object (d # ds) of
                      Inl e \<Rightarrow> Inl e
                    | Inr (pairs, r) \<Rightarrow> Inr (JObj (dict pairs), r)))
          else if c = 0x5B then
            (case skip_ws cs of
               [] \<Rightarrow> Inl JSONDecodeError
             | d # ds \<Rightarrow>
                 if d = 0x5D then Inr (JArr [], ds)
                 else
                   (case parse_array (d # ds) of
                      Inl e \<Rightarrow> Inl e
                    | Inr (vs, r) \<Rightarrow> Inr (JArr vs, r)))
          else
            (case match_constant s of
               None \<Rightarrow> Inl JSONDecodeError
             | Some (v, r) \<Rightarrow> Inr (v, r)))"
| "parse_array s =
     (case scan_once s of
        Inl e \<Rightarrow> Inl e
      | Inr (v, r) \<Rightarrow>
          (case skip_ws r of
             [] \<Rightarrow> Inl JSONDecodeError
           | d # ds \<Rightarrow>
               if d = 0x5D then Inr ([v], ds)
               else if d = 0x2C \<and> length ds < length s then
                 (case parse_array (skip_ws ds) of
                    Inl e \<Rightarrow> Inl e
                  | Inr (vs, r') \<Rightarrow> Inr (v # vs, r'))
               else Inl JSONDecodeError))"
| "parse_object s =
     (case s of
        [] \<Rightarrow> Inl JSONDecodeError
      | q # cs \<Rightarrow>
          if q \<noteq> 0x22 then Inl JSONDecodeError
          else
            (case scanstring cs of
               Inl e \<Rightarrow> Inl e
             | Inr (key, r) \<Rightarrow>
                 (case skip_ws r of
                    [] \<Rightarrow> Inl JSONDecodeError
                  | p # r1 \<Rightarrow>
                      if p \<noteq> 0x3A then Inl JSONDecodeError
                      else
                        (case scan_once (skip_ws r1) of
                           Inl e \<Rightarrow> Inl e
                         | Inr (v, r2) \<Rightarrow>
                             (case skip_ws r2 of
                                [] \<Rightarrow> Inl JSONDecodeError
                              | d # ds \<Rightarrow>
                                  if d = 0x7D then Inr ([(key, v)], ds)
                                  else if d = 0x2C \<and> length ds < length s then
                                    (case parse_object (skip_ws ds) of
                                       Inl e \<Rightarrow> Inl e
                                     | Inr (pairs, r') \<Rightarrow> Inr ((key, v) # pairs, r'))
                                  else Inl JSONDecodeError)))))"
  by pat_completeness auto

lemma skip_ws_le: "length (skip_ws s) \<le> length s"
  by (simp add: skip_ws_def length_dropWhile_le)

lemma skip_ws_Cons_le: "skip_ws s = d # ds \<Longrightarrow> length ds < length s"
  using skip_ws_le [of s] by simp

lemma scanstring_shorter: "scanstring s = Inr (str, r) \<Longrightarrow> length r < length s"
proof (induction s arbitrary: str rule: scanstring.induct)
  case 1
  then show ?case by simp
next
  case (2 c cs)
  then show ?case
    by (fastforce simp: prepend_def split: if_splits option.splits sum.splits prod.splits)
qed

termination scan_once
proof (relation "measure (\<lambda>x. case x of
          Inl s \<Rightarrow> 2 * length s
        | Inr (Inl s) \<Rightarrow> 2 * length s + 1
        | Inr (Inr s) \<Rightarrow> 2 * length s + 1)", goal_cases)
  case 1
  show ?case by simp
next
  case (2 s c cs d ds)
  then show ?case using skip_ws_Cons_le [of cs d ds] by simp
next
  case (3 s c cs d ds)
  then show ?case using skip_ws_Cons_le [of cs d ds] by simp
next
  case (4 s)
  show ?case by simp
next
  case (5 s b v r d ds)
  then show ?case using skip_ws_le [of ds] by simp
next
  case (6 s q cs b key r p r1)
  then show ?case
    using skip_ws_le [of r1] skip_ws_Cons_le [of r p r1] scanstring_shorter [of cs key r]
    by simp
next
  case (7 s q cs b key r p r1 b' v r2 d ds)
  then show ?case using skip_ws_le [of ds] by simp
qed

text \<open>
  \<open>json.loads(s)\<close> for a \<open>str\<close>: a leading byte-order mark is refused; the value may
  stand between whitespace, and nothing else may follow it.
\<close>

definition json_loads :: "pystr \<Rightarrow> exn + json" where
  "json_loads s =
     (if startswith s [0xFEFF] then Inl JSONDecodeError
      else
        (case scan_once (skip_ws s) of
           Inl e \<Rightarrow> Inl e
         | Inr (v, r) \<Rightarrow> if skip_ws r = [] then Inr v else Inl JSONDecodeError))"

text \<open>
  What each tab does with a raw reply inside its \<open>try\<close> (lines 265-271, 306-312,
  345-351): normalise it, then \<open>json.loads\<close>.
\<close>

definition parse_reply :: "pystr \<Rightarrow> exn + json" where
  "parse_reply raw = json_loads (normalize_reply raw)"

section \<open>The three model calls\<close>

text \<open>
  The Gemini client is outside the repository. A call \<open>model.generate_content(prompt)\<close>
  followed by \<open>response.text\<close> either gives the reply's text or raises; the client may
  have a state of its own (its quota, its log), which every call can change. Of an
  exception only \<open>str(e)\<close> is kept, the one thing the wrappers use. They catch
  \<open>Exception\<close>; an exception outside that class (\<open>KeyboardInterrupt\<close>, \<open>SystemExit\<close>)
  is not an outcome of the model.
\<close>

datatype model_result = Reply pystr | Raised pystr

type_synonym 'st client = "pystr \<Rightarrow> 'st \<Rightarrow> model_result \<times> 'st"

text \<open>The prompts, as the f-strings of lines 43-56, 66-108 and 118-132 build them.\<close>

definition analyze_prompt :: "pystr \<Rightarrow> pystr" where
  \<open>analyze_prompt resume_text =
     py ''\<newline>'' @
     py ''    Analyze this resume and return ONLY a valid JSON object with exactly these fields:\<newline>'' @
     py ''    - sections_detected: array of strings (sections found in the resume)\<newline>'' @
     py ''    - missing_sections: array of strings (important sections that are missing)\<newline>'' @
     py ''    - well_written_sections: array of strings (sections that are well-written)\<newline>'' @
     py ''    - resume_quality_score: number between 0-100 (overall resume quality)\<newline>'' @
     py ''    - skills_sentiment_summary: string (sentiment analysis of skills section)\<newline>'' @
     py ''    - improvement_suggestions: array of strings (specific improvement suggestions)\<newline>'' @
     py ''\<newline>'' @
     py ''    Resume:\<newline>'' @
     py ''    '' @
     resume_text @
     py ''\<newline>'' @
     py ''\<newline>'' @
     py ''    Return ONLY the JSON object, no other text or explanation.\<newline>'' @
     py ''    ''\<close>

definition structured_prompt :: "pystr \<Rightarrow> pystr" where
  \<open>structured_prompt resume_text =
     py ''\<newline>'' @
     py ''    Parse this resume into a standardized, code-readable JSON format with these exact fields:\<newline>'' @
     py ''    {\<newline>'' @
     py ''        "personal_info": {\<newline>'' @
     py ''            "name": "string",\<newline>'' @
     py ''            "email": "string",\<newline>'' @
     py ''            "phone": "string",\<newline>'' @
     py ''            "location": "string",\<newline>'' @
     py ''            "linkedin": "string"\<newline>'' @
     py ''        },\<newline>'' @
     py ''        "summary": "string",\<newline>'' @
     py ''        "experience": [\<newline>'' @
     py ''            {\<newline>'' @
     py ''                "title": "string",\<newline>'' @
     py ''                "company": "string",\<newline>'' @
     py ''                "duration": "string",\<newline>'' @
     py ''                "details": ["array of strings"]\<newline>'' @
     py ''            }\<newline>'' @
     py ''        ],\<newline>'' @
     py ''        "education": [\<newline>'' @
     py ''            {\<newline>'' @
     py ''                "degree": "string",\<newline>'' @
     py ''                "institution": "string",\<newline>'' @
     py ''                "year": "string",\<newline>'' @
     py ''                "details": "string"\<newline>'' @
     py ''            }\<newline>'' @
     py ''        ],\<newline>'' @
     py ''        "skills": ["array of strings"],\<newline>'' @
     py ''        "certifications": ["array of strings"],\<newline>'' @
     py ''        "projects": [\<newline>'' @
     py ''            {\<newline>'' @
     py ''                "name": "string",\<newline>'' @
     py ''                "description": "string",\<newline>'' @
     py ''                "technologies": ["array of strings"]\<newline>'' @
     py ''            }\<newline>'' @
     py ''        ]\<newline>'' @
     py ''    }\<newline>'' @
     py ''\<newline>'' @
     py ''    Resume:\<newline>'' @
     py ''    '' @
     resume_text @
     py ''\<newline>'' @
     py ''\<newline>'' @
     py ''    Return ONLY the JSON object. If a section is not found, use empty string or empty array.\<newline>'' @
     py ''    ''\<close>

definition ats_prompt :: "pystr \<Rightarrow> pystr" where
  \<open>ats_prompt resume_text =
     py ''\<newline>'' @
     py ''    Analyze this resume for jargon and ATS-friendliness. Return ONLY a valid JSON object:\<newline>'' @
     py ''    {\<newline>'' @
     py ''        "jargon_detected": ["array of jargon phrases found"],\<newline>'' @
     py ''        "filler_phrases": ["array of filler phrases found"],\<newline>'' @
     py ''        "ats_recommendations": ["array of ATS-friendly suggestions"],\<newline>'' @
     py ''        "keyword_suggestions": ["array of industry keywords to add"],\<newline>'' @
     py ''        "formatting_issues": ["array of formatting problems"]\<newline>'' @
     py ''    }\<newline>'' @
     py ''\<newline>'' @
     py ''    Resume:\<newline>'' @
     py ''    '' @
     resume_text @
     py ''\<newline>'' @
     py ''\<newline>'' @
     py ''    Return ONLY the JSON object.\<newline>'' @
     py ''    ''\<close>

definition analyze_resume :: "'st client \<Rightarrow> pystr \<Rightarrow> 'st \<Rightarrow> pystr \<times> 'st" where
  \<open>analyze_resume model resume_text st =
     (case model (analyze_prompt resume_text) st of
        (Reply text, st') \<Rightarrow> (strip text, st')
      | (Raised e, st') \<Rightarrow> (py ''{"error": "Failed to analyze resume: '' @ e @ py ''"}'', st'))\<close>

definition parse_structured_resume :: "'st client \<Rightarrow> pystr \<Rightarrow> 'st \<Rightarrow> pystr \<times> 'st" where
  \<open>parse_structured_resume model resume_text st =
     (case model (structured_prompt resume_text) st of
        (Reply text, st') \<Rightarrow> (strip text, st')
      | (Raised e, st') \<Rightarrow> (py ''{"error": "Failed to parse resume: '' @ e @ py ''"}'', st'))\<close>

definition detect_jargon_and_ats_issues :: "'st client \<Rightarrow> pystr \<Rightarrow> 'st \<Rightarrow> pystr \<times> 'st" where
  \<open>detect_jargon_and_ats_issues model resume_text st =
     (case model (ats_prompt resume_text) st of
        (Reply text, st') \<Rightarrow> (strip text, st')
      | (Raised e, st') \<Rightarrow> (py ''{"error": "Failed to analyze jargon/ATS: '' @ e @ py ''"}'', st'))\<close>

section \<open>Text extraction\<close>

type_synonym byte = "8 word"

text \<open>
  \<open>bytes.decode('utf-8')\<close>, strict: the first character of a byte string and the number
  of bytes that encode it, or \<open>None\<close> where the bytes are not well-formed UTF-8 (a stray
  or missing continuation byte, an overlong form, a surrogate, a value above U+10FFFF).
\<close>

definition continuation :: "byte \<Rightarrow> bool" where
  "continuation b \<longleftrightarrow> 0x80 \<le> unat b \<and> unat b \<le> 0xBF"

definition utf8_head :: "byte list \<Rightarrow> (nat \<times> nat) option" where
  "utf8_head bs =
     (case bs of
        [] \<Rightarrow> None
      | b0 # r \<Rightarrow>
          let a = unat b0 in
          if a < 0x80 then Some (a, 1)
          else if 0xC2 \<le> a \<and> a \<le> 0xDF then
            (case r of
               b1 # _ \<Rightarrow>
                 if continuation b1
                 then Some ((a - 0xC0) * 0x40 + (unat b1 - 0x80), 2)
                 else None
             | _ \<Rightarrow> None)
          else if 0xE0 \<le> a \<and> a \<le> 0xEF then
            (case r of
               b1 # b2 # _ \<Rightarrow>
                 let c = (a - 0xE0) * 0x1000 + (unat b1 - 0x80) * 0x40 + (unat b2 - 0x80) in
                 if continuation b1 \<and> continuation b2 \<and> 0x800 \<le> c \<and>
                    \<not> (0xD800 \<le> c \<and> c \<le> 0xDFFF)
                 then Some (c, 3)
                 else None
             | _ \<Rightarrow> None)
          else if 0xF0 \<le> a \<and> a \<le> 0xF4 then
            (case r of
               b1 # b2 # b3 # _ \<Rightarrow>
                 let c = (a - 0xF0) * 0x40000 + (unat b1 - 0x80) * 0x1000 +
                         (unat b2 - 0x80) * 0x40 + (unat b3 - 0x80) in
                 if continuation b1 \<and> continuation b2 \<and> continuation b3 \<and>
                    0x10000 \<le> c \<and> c \<le> 0x10FFFF
                 then Some (c, 4)
                 else None
             | _ \<Rightarrow> None)
          else None)"

fun utf8_decode :: "byte list \<Rightarrow> exn + pystr" where
  "utf8_decode [] = Inr []"
| "utf8_decode (b # bs) =
     (case utf8_head (b # bs) of
        None \<Rightarrow> Inl UnicodeDecodeError
      | Some (c, n) \<Rightarrow>
          (case utf8_decode (drop (n - 1) bs) of
             Inl e \<Rightarrow> Inl e
           | Inr s \<Rightarrow> Inr (c # s)))"

text \<open>
  An uploaded file: its name and its bytes, which \<open>read()\<close> returns. PyMuPDF and
  python-docx are outside the repository: \<open>pdf_pages\<close> stands for \<open>fitz.open\<close> and
  \<open>page.get_text()\<close> on every page in order, \<open>docx_paragraphs\<close> for \<open>Document\<close> and the
  \<open>text\<close> of every paragraph in order. Either may raise on a file it cannot read.
\<close>

record uploaded_file =
  file_name :: pystr
  file_bytes :: "byte list"

type_synonym text_source = "byte list \<Rightarrow> exn + pystr list"

definition extract_text_from_pdf :: "text_source \<Rightarrow> uploaded_file \<Rightarrow> exn + pystr" where
  "extract_text_from_pdf pdf_pages pdf_file =
     bind (pdf_pages (file_bytes pdf_file)) (\<lambda>pages. Inr (join (py ''\<newline>'') pages))"

definition extract_text_from_docx :: "text_source \<Rightarrow> uploaded_file \<Rightarrow> exn + pystr" where
  "extract_text_from_docx docx_paragraphs docx_file =
     bind (docx_paragraphs (file_bytes docx_file))
       (\<lambda>paragraphs. Inr (join (py ''\<newline>'') paragraphs))"

definition extract_text_from_txt :: "uploaded_file \<Rightarrow> exn + pystr" where
  "extract_text_from_txt txt_file = utf8_decode (file_bytes txt_file)"

section \<open>The run of an analysis\<close>

text \<open>
  The body of \<open>if analyze_button and uploaded_file:\<close> (lines 219-351), without the
  widgets (progress bar, status text, tabs, metrics): the extraction chosen by the end of
  the file's name (\<open>extract_text\<close>, lines 232-237), the guard on empty text, and the
  three model calls in order. An
  exception of the extraction is caught nowhere and ends the run. After the guard
  (\<open>st.error\<close> and \<open>st.stop()\<close>) nothing runs. The run returns the client's state, so that
  the calls it made can be read off.
\<close>

datatype run =
    Uncaught exn
  | ExtractionFailure
  | Replies pystr pystr pystr

definition extract_text :: "text_source \<Rightarrow> text_source \<Rightarrow> uploaded_file \<Rightarrow> exn + pystr" where
  "extract_text pdf_pages docx_paragraphs uploaded =
     (if endswith (file_name uploaded) (py ''.pdf'')
        then extract_text_from_pdf pdf_pages uploaded
      else if endswith (file_name uploaded) (py ''.docx'')
        then extract_text_from_docx docx_paragraphs uploaded
      else extract_text_from_txt uploaded)"

definition main ::
  "text_source \<Rightarrow> text_source \<Rightarrow> 'st client \<Rightarrow> uploaded_file \<Rightarrow> 'st \<Rightarrow> run \<times> 'st"
where
  "main pdf_pages docx_paragraphs model uploaded st =
     (case extract_text pdf_pages docx_paragraphs uploaded of
        Inl e \<Rightarrow> (Uncaught e, st)
      | Inr resume_text \<Rightarrow>
          if strip resume_text = [] then (ExtractionFailure, st)
          else
            let (feedback_raw, st1) = analyze_resume model resume_text st;
                (structured_raw, st2) = parse_structured_resume model resume_text st1;
                (ats_raw, st3) = detect_jargon_and_ats_issues model resume_text st2
            in (Replies feedback_raw structured_raw ats_raw, st3))"

section \<open>The report\<close>

text \<open>
  Python on the parsed records, which can hold any JSON value: \<open>d.get(k, dflt)\<close>
  (an \<open>AttributeError\<close> on anything but a dict), the truth value that \<open>if x:\<close> tests,
  iteration in a \<open>for\<close> loop (a \<open>TypeError\<close> on \<open>None\<close>, a \<open>bool\<close> and a number; a
  string gives its characters, a dict its keys), and \<open>str\<close>, which an f-string applies.
\<close>

definition item :: "(pystr \<times> json) list \<Rightarrow> pystr \<Rightarrow> json \<Rightarrow> json" where
  "item items k dflt = (case map_of items k of None \<Rightarrow> dflt | Some v \<Rightarrow> v)"

definition get :: "json \<Rightarrow> pystr \<Rightarrow> json \<Rightarrow> exn + json" where
  "get d k dflt =
     (case d of
        JObj items \<Rightarrow> Inr (item items k dflt)
      | _ \<Rightarrow> Inl AttributeError)"

text \<open>
  A float is false when it is zero: the decimal is zero, or so small that the nearest
  binary64 value is zero (at most \<open>2^-1075\<close>, half the least positive value).
\<close>

fun float_nonzero :: "pyfloat \<Rightarrow> bool" where
  "float_nonzero (Decimal neg m e) =
     (m \<noteq> 0 \<and> \<not> (e < 0 \<and> m * 2 ^ 1075 \<le> 10 ^ nat (- e)))"
| "float_nonzero (Infinity neg) = True"
| "float_nonzero NaN = True"

fun truthy :: "json \<Rightarrow> bool" where
  "truthy JNull = False"
| "truthy (JBool b) = b"
| "truthy (JInt i) = (i \<noteq> 0)"
| "truthy (JFloat f) = float_nonzero f"
| "truthy (JStr s) = (s \<noteq> [])"
| "truthy (JArr xs) = (xs \<noteq> [])"
| "truthy (JObj items) = (items \<noteq> [])"

fun iterate :: "json \<Rightarrow> exn + json list" where
  "iterate (JArr xs) = Inr xs"
| "iterate (JStr s) = Inr (map (\<lambda>c. JStr [c]) s)"
| "iterate (JObj items) = Inr (map (\<lambda>(k, v). JStr k) items)"
| "iterate v = Inl TypeError"

fun decimal :: "nat \<Rightarrow> pystr" where
  "decimal n = (if n < 10 then [0x30 + n] else decimal (n div 10) @ [0x30 + n mod 10])"

definition str_int :: "int \<Rightarrow> pystr" where
  "str_int i = (if i < 0 then 0x2D # decimal (nat (- i)) else decimal (nat i))"

text \<open>
  \<open>str(v)\<close>. For a float, a list and a dict Python goes through \<open>repr\<close> (the shortest
  decimal that reads back as the float, the quoting of strings), which is not modelled:
  \<open>repr\<close> is a parameter.
\<close>

definition py_str :: "(json \<Rightarrow> pystr) \<Rightarrow> json \<Rightarrow> pystr" where
  "py_str repr v =
     (case v of
        JStr s \<Rightarrow> s
      | JNull \<Rightarrow> py ''None''
      | JBool b \<Rightarrow> (if b then py ''True'' else py ''False'')
      | JInt i \<Rightarrow> str_int i
      | _ \<Rightarrow> repr v)"

text \<open>
  reportlab is outside the repository. The story is the list of flowables that
  \<open>generate_pdf_report\<close> hands to \<open>doc.build\<close>: each \<open>Paragraph\<close> with the text and the
  style it is constructed with, each \<open>Spacer\<close> with its width and height. Everything
  reportlab does with them (reading the markup of a paragraph, laying out the pages of
  letter size, writing the PDF) is the parameter \<open>doc_build\<close>, which gives the bytes
  written or raises.
\<close>

datatype style =
    Stylesheet string
  | ParagraphStyle string style nat nat nat

definition title_style :: style where
  "title_style = ParagraphStyle ''CustomTitle'' (Stylesheet ''Heading1'') 24 30 1"

datatype flowable = Paragraph json style | Spacer nat nat

definition bullet :: "(json \<Rightarrow> pystr) \<Rightarrow> json \<Rightarrow> flowable" where
  "bullet repr x = Paragraph (JStr ([0x2022, 0x20] @ py_str repr x)) (Stylesheet ''Normal'')"

definition heading :: "pystr \<Rightarrow> flowable" where
  "heading text = Paragraph (JStr text) (Stylesheet ''Heading3'')"

text \<open>\<open>for x in v: story.append(Paragraph(f"\<bullet> {x}", styles['Normal']))\<close>\<close>

definition bullets :: "(json \<Rightarrow> pystr) \<Rightarrow> json \<Rightarrow> exn + flowable list" where
  "bullets repr v = bind (iterate v) (\<lambda>xs. Inr (map (bullet repr) xs))"

text \<open>
  The pattern of lines 172-176, 187-191, 195-199 and 203-206: under \<open>if v:\<close>, a heading,
  a bullet for each element, and what follows the loop inside the \<open>if\<close> (a spacer, or
  nothing for the last block).
\<close>

definition list_block ::
  "(json \<Rightarrow> pystr) \<Rightarrow> pystr \<Rightarrow> json \<Rightarrow> flowable list \<Rightarrow> exn + flowable list"
where
  "list_block repr title v after =
     (if truthy v then bind (bullets repr v) (\<lambda>bs. Inr (heading title # bs @ after))
      else Inr [])"

definition story :: "(json \<Rightarrow> pystr) \<Rightarrow> json \<Rightarrow> json \<Rightarrow> exn + flowable list" where
  "story repr analysis_data ats_data =
     bind (get analysis_data (py ''resume_quality_score'') (JStr (py ''N/A''))) (\<lambda>score.
     bind (get analysis_data (py ''sections_detected'') (JArr [])) (\<lambda>sections.
     bind (bullets repr sections) (\<lambda>section_bullets.
     bind (get analysis_data (py ''missing_sections'') (JArr [])) (\<lambda>missing.
     bind (list_block repr (py ''<b>Missing Sections:</b>'') missing [Spacer 1 12])
       (\<lambda>missing_block.
     bind (get analysis_data (py ''skills_sentiment_summary'') (JStr [])) (\<lambda>sentiment.
     bind (get analysis_data (py ''improvement_suggestions'') (JArr [])) (\<lambda>suggestions.
     bind (list_block repr (py ''<b>Improvement Suggestions:</b>'') suggestions [Spacer 1 12])
       (\<lambda>suggestions_block.
     bind (get ats_data (py ''ats_recommendations'') (JArr [])) (\<lambda>ats_recs.
     bind (list_block repr (py ''<b>ATS-Friendly Recommendations:</b>'') ats_recs [Spacer 1 12])
       (\<lambda>ats_block.
     bind (get ats_data (py ''jargon_detected'') (JArr [])) (\<lambda>jargon.
     bind (list_block repr (py ''<b>Jargon/Filler Phrases Detected:</b>'') jargon [])
       (\<lambda>jargon_block.
     Inr ([Paragraph (JStr (py ''Resume Analysis Report'')) title_style,
           Spacer 1 20,
           Paragraph
             (JStr (py ''<b>Resume Quality Score: '' @ py_str repr score @ py ''/100</b>''))
             (Stylesheet ''Heading2''),
           Spacer 1 12,
           heading (py ''<b>Sections Detected:</b>'')]
          @ section_bullets @ [Spacer 1 12]
          @ missing_block
          @ (if truthy sentiment
             then [heading (py ''<b>Skills Sentiment Analysis:</b>''),
                   Paragraph sentiment (Stylesheet ''Normal''),
                   Spacer 1 12]
             else [])
          @ suggestions_block
          @ ats_block
          @ jargon_block)))))))))))))"

text \<open>
  The \<open>io.BytesIO\<close> buffer: its content and its position. \<open>doc.build\<close> writes the document
  into the empty buffer, which leaves the position at the end; \<open>buffer.seek(0)\<close> moves
  it back. \<open>structured_data\<close> is a parameter of the function, as in the source.
\<close>

record bytes_io =
  getvalue :: "byte list"
  tell :: nat

definition write_bytes :: "byte list \<Rightarrow> bytes_io \<Rightarrow> bytes_io" where
  "write_bytes bs buffer =
     \<lparr>getvalue = take (tell buffer) (getvalue buffer) @ bs
                   @ drop (tell buffer + length bs) (getvalue buffer),
      tell = tell buffer + length bs\<rparr>"

definition seek :: "nat \<Rightarrow> bytes_io \<Rightarrow> bytes_io" where
  "seek pos buffer = buffer\<lparr>tell := pos\<rparr>"

definition generate_pdf_report ::
  "(json \<Rightarrow> pystr) \<Rightarrow> (flowable list \<Rightarrow> exn + byte list) \<Rightarrow>
   json \<Rightarrow> json \<Rightarrow> json \<Rightarrow> exn + bytes_io"
where
  "generate_pdf_report repr doc_build analysis_data structured_data ats_data =
     bind (story repr analysis_data ats_data) (\<lambda>flowables.
     bind (doc_build flowables) (\<lambda>pdf.
     Inr (seek 0 (write_bytes pdf \<lparr>getvalue = [], tell = 0\<rparr>))))"

section \<open>The layout of the specification\<close>

text \<open>
  The report as section 4.3 of the specification lays it out, for records whose fields
  have the types of the data model: \<open>score\<close> is the text of the quality score,
  \<open>sentiment\<close> a string, the others sequences of strings. A list block is left out when
  its sequence is empty; each bullet is the bullet sign, a space and the text.
\<close>

definition spec_bullet :: "pystr \<Rightarrow> flowable" where
  "spec_bullet s = Paragraph (JStr ([0x2022, 0x20] @ s)) (Stylesheet ''Normal'')"

definition spec_list_block :: "pystr \<Rightarrow> pystr list \<Rightarrow> flowable list \<Rightarrow> flowable list" where
  "spec_list_block title xs after =
     (if xs = [] then [] else heading title # map spec_bullet xs @ after)"

definition spec_report ::
  "pystr \<Rightarrow> pystr list \<Rightarrow> pystr list \<Rightarrow> pystr \<Rightarrow> pystr list \<Rightarrow> pystr list \<Rightarrow> pystr list \<Rightarrow>
   flowable list"
where
  "spec_report score sections missing sentiment suggestions ats_recs jargon =
     [Paragraph (JStr (py ''Resume Analysis Report'')) title_style, Spacer 1 20]
     @ [Paragraph (JStr (py ''<b>Resume Quality Score: '' @ score @ py ''/100</b>''))
          (Stylesheet ''Heading2''),
        Spacer 1 12]
     @ heading (py ''<b>Sections Detected:</b>'') # map spec_bullet sections @ [Spacer 1 12]
     @ spec_list_block (py ''<b>Missing Sections:</b>'') missing [Spacer 1 12]
     @ (if sentiment = [] then []
        else [heading (py ''<b>Skills Sentiment Analysis:</b>''),
              Paragraph (JStr sentiment) (Stylesheet ''Normal''),
              Spacer 1 12])
     @ spec_list_block (py ''<b>Improvement Suggestions:</b>'') suggestions [Spacer 1 12]
     @ spec_list_block (py ''<b>ATS-Friendly Recommendations:</b>'') ats_recs [Spacer 1 12]
     @ spec_list_block (py ''<b>Jargon/Filler Phrases Detected:</b>'') jargon []"

text \<open>
  A record of the data model holds a sequence of strings (a string) under a key; a key
  that is missing counts as the empty sequence (the empty string).
\<close>

definition strings_field :: "(pystr \<times> json) list \<Rightarrow> pystr \<Rightarrow> pystr list \<Rightarrow> bool" where
  "strings_field d k xs \<longleftrightarrow>
     (case map_of d k of None \<Rightarrow> xs = [] | Some v \<Rightarrow> v = JArr (map JStr xs))"

definition string_field :: "(pystr \<times> json) list \<Rightarrow> pystr \<Rightarrow> pystr \<Rightarrow> bool" where
  "string_field d k s \<longleftrightarrow>
     (case map_of d k of None \<Rightarrow> s = [] | Some v \<Rightarrow> v = JStr s)"

text \<open>
  Section 4.1 of the specification: the texts of the pages (of the paragraphs) in order,
  separated by a newline.
\<close>

fun newline_separated :: "pystr list \<Rightarrow> pystr" where
  "newline_separated [] = []"
| "newline_separated (p # ps) = p @ concat (map (\<lambda>q. 0x0A # q) ps)"

text \<open>
  A text file with known content: the UTF-8 encoding of a string of Unicode scalar values
  (every code point up to U+10FFFF but the surrogates), one to four bytes for each.
\<close>

definition scalar :: "nat \<Rightarrow> bool" where
  "scalar c \<longleftrightarrow> c < 0xD800 \<or> (0xE000 \<le> c \<and> c \<le> 0x10FFFF)"

definition utf8_char :: "nat \<Rightarrow> byte list" where
  "utf8_char c =
     (if c < 0x80 then [of_nat c]
      else if c < 0x800 then [of_nat (0xC0 + c div 0x40), of_nat (0x80 + c mod 0x40)]
      else if c < 0x10000 then
        [of_nat (0xE0 + c div 0x1000), of_nat (0x80 + c div 0x40 mod 0x40),
         of_nat (0x80 + c mod 0x40)]
      else
        [of_nat (0xF0 + c div 0x40000), of_nat (0x80 + c div 0x1000 mod 0x40),
         of_nat (0x80 + c div 0x40 mod 0x40), of_nat (0x80 + c mod 0x40)])"

definition utf8_encode :: "pystr \<Rightarrow> byte list" where
  "utf8_encode s = concat (map utf8_char s)"

text \<open>
  A stand-in for the PDF engine, used where a statement about every engine is run on one:
  it writes the text of each paragraph in UTF-8 on a line of its own, nothing for a
  spacer, and refuses a paragraph whose text is not a string.
\<close>

fun flowable_text :: "flowable \<Rightarrow> exn + byte list" where
  "flowable_text (Paragraph (JStr s) style) = Inr (utf8_encode s @ [0x0A])"
| "flowable_text (Paragraph v style) = Inl (LibraryError (py ''text is not a string''))"
| "flowable_text (Spacer w h) = Inr []"

fun plain_text_engine :: "flowable list \<Rightarrow> exn + byte list" where
  "plain_text_engine [] = Inr []"
| "plain_text_engine (f # fs) =
     bind (flowable_text f) (\<lambda>line. bind (plain_text_engine fs) (\<lambda>rest. Inr (line @ rest)))"

section \<open>Facts about the string operations\<close>

lemma fence_eq: "fence = [96, 96, 96]"
  by (simp add: fence_def py_def)

lemma fence_json_eq: "fence_json = fence @ py ''json''"
  by (simp add: fence_def fence_json_def py_def)

lemma startswith_Nil [simp]: "startswith s []"
  by (simp add: startswith_def)

lemma startswith_Cons:
  "startswith (c # cs) (p # ps) \<longleftrightarrow> c = p \<and> startswith cs ps"
  by (auto simp: startswith_def)

lemma startswith_Nil_left: "startswith [] p \<longleftrightarrow> p = []"
  by (auto simp: startswith_def)

lemma startswith_append_self [simp]: "startswith (p @ s) p"
  by (simp add: startswith_def)

lemma startswith_append: "startswith s (p @ q) \<Longrightarrow> startswith s p"
proof -
  assume h: "startswith s (p @ q)"
  have "take (length p) s = take (length p) (take (length (p @ q)) s)"
    by (simp add: min_def)
  also have "\<dots> = take (length p) (p @ q)"
    using h by (simp add: startswith_def)
  finally show ?thesis
    by (simp add: startswith_def)
qed

lemma startswith_contains: "startswith s p \<Longrightarrow> contains s p"
  by (cases s) (auto simp: startswith_Nil_left)

lemma replace_absent:
  "old \<noteq> [] \<Longrightarrow> \<not> contains s old \<Longrightarrow> replace s old new = s"
  by (induction s) auto

lemma replace_prefix:
  assumes "old \<noteq> []"
  shows "replace (old @ s) old new = new @ replace s old new"
proof -
  obtain c cs where e: "old @ s = c # cs"
    using assms by (cases old) auto
  have "startswith (c # cs) old"
    using startswith_append_self [of old s] by (simp add: e)
  then have "replace (c # cs) old new = new @ replace (drop (length old) (c # cs)) old new"
    using assms by simp
  then show ?thesis
    by (simp flip: e)
qed

lemma startswith1_replace:
  "startswith (replace s fence []) [96] \<Longrightarrow> startswith s [96]"
  by (cases s) (auto simp: fence_eq startswith_Cons startswith_Nil_left split: if_splits)

lemma startswith2_replace:
  assumes h: "startswith (replace s fence []) [96, 96]"
  shows "startswith s [96, 96]"
proof (cases s)
  case Nil
  then show ?thesis using h by (simp add: startswith_Nil_left fence_eq)
next
  case (Cons c cs)
  show ?thesis
  proof (cases "startswith s fence")
    case True
    then show ?thesis
      using Cons by (cases cs) (auto simp: fence_eq startswith_Cons startswith_Nil_left)
  next
    case False
    then have "replace s fence [] = c # replace cs fence []"
      using Cons by (simp add: fence_eq)
    with h have "c = 96" and "startswith (replace cs fence []) [96]"
      by (simp_all add: startswith_Cons)
    then show ?thesis
      using Cons startswith1_replace [of cs] by (simp add: startswith_Cons)
  qed
qed

lemma replace_fence_clean: "\<not> contains (replace s fence []) fence"
proof (induction s "fence" "[] :: pystr" rule: replace.induct)
  case 1
  then show ?case by (simp add: fence_eq)
next
  case (2 c cs)
  show ?case
  proof (cases "startswith (c # cs) fence")
    case True
    then show ?thesis using 2 by (simp add: fence_eq)
  next
    case False
    have ne: "fence \<noteq> []" by (simp add: fence_eq)
    have r: "replace (c # cs) fence [] = c # replace cs fence []"
      using False ne by simp
    have "\<not> startswith (c # replace cs fence []) fence"
    proof
      assume "startswith (c # replace cs fence []) fence"
      then have "c = 96" and "startswith (replace cs fence []) [96, 96]"
        by (simp_all add: fence_eq startswith_Cons)
      then have "startswith (c # cs) fence"
        using startswith2_replace [of cs] by (simp add: fence_eq startswith_Cons)
      with False show False by simp
    qed
    moreover have "\<not> contains (replace cs fence []) fence"
      using 2(3) False ne by simp
    ultimately show ?thesis
      using r by simp
  qed
qed


lemma contains_iff: "contains s p \<longleftrightarrow> (\<exists>xs ys. s = xs @ p @ ys)"
proof (induction s)
  case Nil
  then show ?case by auto
next
  case (Cons c cs)
  show ?case
  proof
    assume "contains (c # cs) p"
    then consider "startswith (c # cs) p" | "contains cs p" by auto
    then show "\<exists>xs ys. c # cs = xs @ p @ ys"
    proof cases
      case 1
      then have "c # cs = [] @ p @ drop (length p) (c # cs)"
        by (metis append_Nil append_take_drop_id startswith_def)
      then show ?thesis by blast
    next
      case 2
      then obtain xs ys where "cs = xs @ p @ ys" using Cons by blast
      then have "c # cs = (c # xs) @ p @ ys" by simp
      then show ?thesis by blast
    qed
  next
    assume "\<exists>xs ys. c # cs = xs @ p @ ys"
    then obtain xs ys where e: "c # cs = xs @ p @ ys" by blast
    show "contains (c # cs) p"
    proof (cases xs)
      case Nil
      then have "startswith (c # cs) p" using e by simp
      then show ?thesis by simp
    next
      case (Cons x xs')
      then have "cs = xs' @ p @ ys" using e by simp
      then show ?thesis using Cons.IH by auto
    qed
  qed
qed

lemma contains_appendI1: "contains xs p \<Longrightarrow> contains (xs @ ys) p"
  unfolding contains_iff by (metis append.assoc)

lemma contains_appendI2: "contains ys p \<Longrightarrow> contains (xs @ ys) p"
  unfolding contains_iff by (metis append.assoc)

lemma contains_lstrip: "contains (lstrip s) p \<Longrightarrow> contains s p"
  unfolding lstrip_def by (metis contains_appendI2 takeWhile_dropWhile_id)

lemma rstrip_decomp: "s = rstrip s @ rev (takeWhile isspace (rev s))"
proof -
  have "rev (dropWhile isspace (rev s)) @ rev (takeWhile isspace (rev s)) =
        rev (takeWhile isspace (rev s) @ dropWhile isspace (rev s))"
    by (simp only: rev_append)
  also have "\<dots> = s"
    by (simp only: takeWhile_dropWhile_id rev_rev_ident)
  finally show ?thesis by (simp only: rstrip_def)
qed

lemma contains_rstrip: "contains (rstrip s) p \<Longrightarrow> contains s p"
  by (metis contains_appendI1 rstrip_decomp)

lemma contains_strip: "contains (strip s) p \<Longrightarrow> contains s p"
  unfolding strip_def by (blast dest: contains_rstrip contains_lstrip)

lemma strip_empty_iff: "strip s = [] \<longleftrightarrow> (\<forall>c \<in> set s. isspace c)"
proof -
  have "strip s = [] \<longleftrightarrow> (\<forall>c \<in> set (dropWhile isspace s). isspace c)"
    by (simp add: strip_def lstrip_def rstrip_def dropWhile_eq_Nil_conv)
  also have "\<dots> \<longleftrightarrow> dropWhile isspace s = []"
    by (metis dropWhile_eq_Nil_conv hd_dropWhile list.set_sel(1) empty_iff list.set(1))
  finally show ?thesis by (simp add: dropWhile_eq_Nil_conv)
qed

lemma strip_ends:
  "strip s = [] \<or> (\<not> isspace (hd (strip s)) \<and> \<not> isspace (last (strip s)))"
proof (cases "strip s = []")
  case True
  then show ?thesis by simp
next
  case False
  define u where "u = lstrip s"
  have v: "strip s = rstrip u" by (simp add: strip_def u_def)
  have "dropWhile isspace (rev u) \<noteq> []" using False v by (simp add: rstrip_def)
  then have l: "\<not> isspace (last (strip s))"
    using hd_dropWhile [of isspace "rev u"] by (simp add: v rstrip_def last_rev)
  have "u \<noteq> []" using False v by (auto simp: rstrip_def)
  then have "\<not> isspace (hd u)"
    using hd_dropWhile [of isspace s] by (simp add: u_def lstrip_def)
  moreover have "hd u = hd (rstrip u)"
    using rstrip_decomp [of u] False v by (metis hd_append2)
  ultimately show ?thesis using l v by simp
qed

lemma strip_id:
  "s \<noteq> [] \<Longrightarrow> \<not> isspace (hd s) \<Longrightarrow> \<not> isspace (last s) \<Longrightarrow> strip s = s"
proof -
  assume a: "s \<noteq> []" "\<not> isspace (hd s)" "\<not> isspace (last s)"
  then have "lstrip s = s" by (cases s) (simp_all add: lstrip_def)
  moreover have "rstrip s = s"
    using a by (cases "rev s") (simp_all add: rstrip_def last_rev [symmetric] hd_rev)
  ultimately show ?thesis by (simp add: strip_def)
qed

lemma strip_idem [simp]: "strip (strip s) = strip s"
proof (cases "strip s = []")
  case True
  have "strip [] = []" by (simp add: strip_def lstrip_def rstrip_def)
  then show ?thesis by (simp only: True)
next
  case False
  then show ?thesis using strip_ends [of s] strip_id [of "strip s"] by blast
qed

lemma strip_Cons_space: "isspace a \<Longrightarrow> strip (a # t) = strip t"
  by (simp add: strip_def lstrip_def)

lemma strip_snoc_space: "isspace a \<Longrightarrow> strip (t @ [a]) = strip t"
proof (cases "\<forall>c \<in> set t. isspace c")
  case True
  assume "isspace a"
  then have "strip (t @ [a]) = []" using True by (simp add: strip_empty_iff)
  moreover have "strip t = []" using True by (simp add: strip_empty_iff)
  ultimately show ?thesis by simp
next
  case False
  assume a: "isspace a"
  have "lstrip (t @ [a]) = lstrip t @ [a]"
    using False by (auto simp: lstrip_def dropWhile_append)
  then show ?thesis using a by (simp add: strip_def rstrip_def)
qed


lemma startswith_trans: "startswith s p \<Longrightarrow> startswith p q \<Longrightarrow> startswith s q"
  by (metis append_take_drop_id startswith_append startswith_def)

lemma replace_before_fence:
  assumes "old \<noteq> []" and "startswith old fence"
  shows "\<not> contains x fence \<Longrightarrow> x = [] \<or> last x \<noteq> 96 \<Longrightarrow>
         replace (x @ fence) old new = x @ replace fence old new"
proof (induction x)
  case Nil
  then show ?case by simp
next
  case (Cons c xs)
  have "\<not> startswith ((c # xs) @ fence) old"
  proof
    assume "startswith ((c # xs) @ fence) old"
    then have f: "startswith ((c # xs) @ fence) fence"
      using assms(2) by (rule startswith_trans)
    show False
    proof (cases xs)
      case Nil
      then show ?thesis using f Cons.prems by (simp add: fence_eq startswith_Cons)
    next
      case a: (Cons d ys)
      show ?thesis
      proof (cases ys)
        case Nil
        then show ?thesis using f a Cons.prems by (simp add: fence_eq startswith_Cons)
      next
        case (Cons e zs)
        then have "startswith (c # xs) fence"
          using f a by (simp add: fence_eq startswith_Cons)
        then show ?thesis using Cons.prems by simp
      qed
    qed
  qed
  then have "replace ((c # xs) @ fence) old new = c # replace (xs @ fence) old new"
    using assms(1) by simp
  moreover have "\<not> contains xs fence" using Cons.prems by simp
  moreover have "xs = [] \<or> last xs \<noteq> 96" using Cons.prems by auto
  ultimately show ?case using Cons.IH by simp
qed

lemma contains_snoc_newline: "contains (t @ [10]) fence \<Longrightarrow> contains t fence"
proof (induction t)
  case Nil
  then show ?case by (simp add: fence_eq startswith_Cons startswith_Nil_left)
next
  case (Cons c cs)
  from Cons.prems consider "startswith (c # cs @ [10]) fence" | "contains (cs @ [10]) fence"
    by auto
  then show ?case
  proof cases
    case 1
    then have "startswith (c # cs) fence"
      by (cases cs; cases "tl cs")
         (auto simp: fence_eq startswith_Cons startswith_Nil_left)
    then show ?thesis by simp
  next
    case 2
    then show ?thesis using Cons.IH by simp
  qed
qed

lemma wrapped_clean:
  assumes "\<not> contains t fence"
  shows "\<not> contains (10 # t @ [10]) fence"
  using assms contains_snoc_newline [of t]
  by (auto simp: fence_eq startswith_Cons)

lemma isspace_newline: "isspace 10"
  by (simp add: isspace_def)

lemma strip_wrapped: "strip (10 # t @ [10]) = strip t"
  using strip_snoc_space [of 10 "10 # t"] strip_Cons_space [of 10 t] isspace_newline
  by simp

lemma replace_fence_self: "replace fence fence [] = []"
  using replace_prefix [of fence "[]" "[]"] by (simp add: fence_eq)

lemma replace_fence_json: "replace fence fence_json [] = fence"
  by (simp add: fence_eq fence_json_def py_def startswith_def)

lemma unwrap:
  assumes "\<not> contains t fence"
  shows "replace ((10 # t @ [10]) @ fence) fence [] = 10 # t @ [10]"
    and "replace ((10 # t @ [10]) @ fence) fence_json [] = (10 # t @ [10]) @ fence"
proof -
  have c: "\<not> contains (10 # t @ [10]) fence" using assms by (rule wrapped_clean)
  have l: "10 # t @ [10] = [] \<or> last (10 # t @ [10]) \<noteq> 96" by simp
  have "fence \<noteq> []" "startswith fence fence" by (simp_all add: fence_eq startswith_def)
  from replace_before_fence [OF this c l]
  show "replace ((10 # t @ [10]) @ fence) fence [] = 10 # t @ [10]"
    by (simp add: replace_fence_self)
  have "fence_json \<noteq> []" "startswith fence_json fence"
    by (simp_all add: fence_json_eq) (simp add: fence_eq)
  from replace_before_fence [OF this c l]
  show "replace ((10 # t @ [10]) @ fence) fence_json [] = (10 # t @ [10]) @ fence"
    by (simp add: replace_fence_json)
qed

lemma fenced_json_shape: "fenced_json t = fence_json @ (10 # t @ [10]) @ fence"
  by (simp add: fenced_json_def fence_json_def fence_def py_def)

lemma fenced_shape: "fenced t = fence @ (10 # t @ [10]) @ fence"
  by (simp add: fenced_def fence_def py_def)

lemma normalize_fenced_json:
  assumes "\<not> contains t fence"
  shows "normalize_reply (fenced_json t) = strip t"
proof -
  let ?x = "10 # t @ [10]"
  let ?s = "fence_json @ ?x @ fence"
  have "strip ?s = ?s"
    by (rule strip_id) (simp_all add: fence_json_def fence_def py_def isspace_def)
  moreover have "startswith ?s fence_json" by simp
  moreover have "replace ?s fence_json [] = ?x @ fence"
    using replace_prefix [of fence_json "?x @ fence" "[]"] unwrap(2) [OF assms]
    by (simp add: fence_json_eq fence_eq)
  ultimately show ?thesis
    using unwrap(1) [OF assms] strip_wrapped [of t]
    by (simp add: normalize_reply_def fenced_json_shape)
qed

lemma normalize_fenced:
  assumes "\<not> contains t fence"
  shows "normalize_reply (fenced t) = strip t"
proof -
  let ?x = "10 # t @ [10]"
  let ?s = "fence @ ?x @ fence"
  have "strip ?s = ?s"
    by (rule strip_id) (simp_all add: fence_def py_def isspace_def)
  moreover have "\<not> startswith ?s fence_json"
    by (simp add: fence_json_def fence_def py_def startswith_def)
  moreover have "startswith ?s fence" by simp
  moreover have "replace ?s fence [] = ?x"
    using replace_prefix [of fence "?x @ fence" "[]"] unwrap(1) [OF assms]
    by (simp add: fence_eq)
  ultimately show ?thesis
    using strip_wrapped [of t]
    by (simp add: normalize_reply_def fenced_shape)
qed

lemma normalize_unfenced:
  assumes "\<not> startswith (strip raw) fence"
  shows "normalize_reply raw = strip raw"
proof -
  have "\<not> startswith (strip raw) fence_json"
    using assms startswith_append [of "strip raw" fence "py ''json''"]
    by (auto simp: fence_json_eq)
  then show ?thesis using assms by (simp add: normalize_reply_def)
qed

lemma normalize_clean:
  assumes "startswith (strip raw) fence"
  shows "\<not> contains (normalize_reply raw) fence"
  using assms replace_fence_clean contains_strip
  by (auto simp: normalize_reply_def Let_def)

lemma normalize_idem: "normalize_reply (normalize_reply raw) = normalize_reply raw"
proof (cases "startswith (strip raw) fence")
  case True
  then have "\<not> contains (normalize_reply raw) fence" by (rule normalize_clean)
  then have "\<not> startswith (strip (normalize_reply raw)) fence"
    using contains_strip startswith_contains by blast
  then have "normalize_reply (normalize_reply raw) = strip (normalize_reply raw)"
    by (rule normalize_unfenced)
  then show ?thesis
    by (auto simp: normalize_reply_def Let_def)
next
  case False
  then have e: "normalize_reply raw = strip raw" by (rule normalize_unfenced)
  have "\<not> startswith (strip (strip raw)) fence" using False by simp
  then show ?thesis unfolding e by (simp add: normalize_unfenced)
qed

section \<open>Evaluation on concrete inputs\<close>

text \<open>The equations that the simplifier needs to run the model on a concrete input.\<close>

lemmas norm_eval = normalize_reply_def strip_def lstrip_def rstrip_def isspace_def
  startswith_def fence_def fence_json_def fenced_def fenced_json_def py_def

lemmas json_eval = json_loads_def skip_ws_def json_ws_def scan_once.simps parse_object.simps
  parse_array.simps escape_def match_constant_def match_number_def is_digit_def digits_val_def
  dict_def startswith_def py_def Let_def prepend_def hex4_def hexval_def unescape_def

section \<open>Fence removal (C10, C3)\<close>

lemma normalize_fence_branch:
  assumes "startswith (strip raw) fence"
  shows "normalize_reply raw =
         strip (replace (if startswith (strip raw) fence_json
                         then replace (strip raw) fence_json [] else strip raw) fence [])"
  using assms by (simp add: normalize_reply_def)

text \<open>
  C10. In the normalisation of a reply: when the reply, stripped of surrounding whitespace,
  does not begin with the triple-backtick fence, nothing is removed from it (so a fence at
  its end only stays, and goes to the JSON parser); when it does begin with the fence,
  the result is what \<open>replace\<close> leaves when it deletes the fence token wherever it
  occurs, and no occurrence of the token is left in it, inside a JSON string or not.
\<close>

theorem C10_fence_removal:
  "(\<not> startswith (strip raw) fence \<longrightarrow>
      normalize_reply raw = strip raw \<and> parse_reply raw = json_loads (strip raw)) \<and>
   (startswith (strip raw) fence \<longrightarrow>
      \<not> contains (normalize_reply raw) fence \<and>
      normalize_reply raw =
        strip (replace (if startswith (strip raw) fence_json
                        then replace (strip raw) fence_json [] else strip raw) fence []))"
  using normalize_unfenced [of raw] normalize_clean [of raw] normalize_fence_branch [of raw]
  by (simp add: parse_reply_def)

theorem C10_fence_removal_witness:
  \<open>\<not> startswith (strip (py ''{"a": 1}\<newline>```'')) fence \<and>
   normalize_reply (py ''{"a": 1}\<newline>```'') = py ''{"a": 1}\<newline>```'' \<and>
   parse_reply (py ''{"a": 1}\<newline>```'') = Inl JSONDecodeError \<and>
   startswith (strip (py ''```json\<newline>{"a": "x```y"}\<newline>```'')) fence \<and>
   \<not> contains (normalize_reply (py ''```json\<newline>{"a": "x```y"}\<newline>```'')) fence \<and>
   normalize_reply (py ''```json\<newline>{"a": "x```y"}\<newline>```'') = py ''{"a": "xy"}''\<close>
proof -
  have a: \<open>\<not> startswith (strip (py ''{"a": 1}\<newline>```'')) fence\<close>
    by (simp add: norm_eval)
  have b: \<open>startswith (strip (py ''```json\<newline>{"a": "x```y"}\<newline>```'')) fence\<close>
    by (simp add: norm_eval)
  have c: \<open>strip (py ''{"a": 1}\<newline>```'') = py ''{"a": 1}\<newline>```''\<close>
    by (simp add: norm_eval)
  have d: \<open>json_loads (py ''{"a": 1}\<newline>```'') = Inl JSONDecodeError\<close>
    by (simp add: json_eval)
  have e: \<open>normalize_reply (py ''```json\<newline>{"a": "x```y"}\<newline>```'') = py ''{"a": "xy"}''\<close>
    by (simp add: norm_eval)
  from C10_fence_removal [of \<open>py ''{"a": 1}\<newline>```''\<close>] a
  have n1: \<open>normalize_reply (py ''{"a": 1}\<newline>```'') = strip (py ''{"a": 1}\<newline>```'')\<close>
    and n2: \<open>parse_reply (py ''{"a": 1}\<newline>```'') = json_loads (strip (py ''{"a": 1}\<newline>```''))\<close>
    by blast+
  from C10_fence_removal [of \<open>py ''```json\<newline>{"a": "x```y"}\<newline>```''\<close>] b
  have n3: \<open>\<not> contains (normalize_reply (py ''```json\<newline>{"a": "x```y"}\<newline>```'')) fence\<close>
    by blast
  have p1: \<open>normalize_reply (py ''{"a": 1}\<newline>```'') = py ''{"a": 1}\<newline>```''\<close>
    unfolding n1 c by (rule refl)
  have p2: \<open>parse_reply (py ''{"a": 1}\<newline>```'') = Inl JSONDecodeError\<close>
    unfolding n2 c d by (rule refl)
  show ?thesis
    by (intro conjI a p1 p2 b n3 e)
qed

text \<open>
  Where the text holds no triple-backtick token, the three reply forms (fenced with the
  tag \<open>json\<close>, fenced without a tag, not fenced) are normalised to the same string, the
  text stripped of surrounding whitespace, and parse to the same result; and normalising
  a reply twice gives what normalising it once gives.
\<close>

lemma fence_forms_without_token:
  "normalize_reply (normalize_reply raw) = normalize_reply raw \<and>
   (\<not> contains t fence \<longrightarrow>
      normalize_reply (fenced_json t) = strip t \<and>
      normalize_reply (fenced t) = strip t \<and>
      normalize_reply t = strip t \<and>
      parse_reply (fenced_json t) = parse_reply t \<and>
      parse_reply (fenced t) = parse_reply t)"
proof -
  have "normalize_reply t = strip t" if "\<not> contains t fence"
  proof -
    have "\<not> startswith (strip t) fence"
      using that contains_strip startswith_contains by blast
    then show ?thesis by (rule normalize_unfenced)
  qed
  then show ?thesis
    using normalize_idem [of raw] normalize_fenced_json [of t] normalize_fenced [of t]
    by (simp add: parse_reply_def)
qed

text \<open>
  C3. The code looks for the fence at the start of the stripped reply only, with
  \<open>startswith\<close> at lines 266 and 268, and then removes it with \<open>str.replace\<close>, which
  deletes the token wherever it occurs, not at the two ends only. A JSON object whose
  text holds the token inside a string value therefore parses to another object once the
  reply is fenced: for the object with the one member \<open>a\<close> whose value is the token, the
  reply without a fence parses to that object, and the two fenced replies parse to the
  object whose member \<open>a\<close> is the empty string. The three forms do not parse to the same
  object.
\<close>

theorem C3_fenced_reply_loses_token:
  \<open>fenced_json (py ''{"a": "```"}'') = py ''```json\<newline>{"a": "```"}\<newline>```'' \<and>
   fenced (py ''{"a": "```"}'') = py ''```\<newline>{"a": "```"}\<newline>```'' \<and>
   json_loads (py ''{"a": "```"}'') = Inr (JObj [(py ''a'', JStr (py ''```''))]) \<and>
   parse_reply (py ''{"a": "```"}'') = Inr (JObj [(py ''a'', JStr (py ''```''))]) \<and>
   parse_reply (fenced_json (py ''{"a": "```"}'')) = Inr (JObj [(py ''a'', JStr [])]) \<and>
   parse_reply (fenced (py ''{"a": "```"}'')) = Inr (JObj [(py ''a'', JStr [])]) \<and>
   parse_reply (fenced_json (py ''{"a": "```"}'')) \<noteq> parse_reply (py ''{"a": "```"}'')\<close>
proof -
  have f: \<open>fenced_json (py ''{"a": "```"}'') = py ''```json\<newline>{"a": "```"}\<newline>```''\<close>
    \<open>fenced (py ''{"a": "```"}'') = py ''```\<newline>{"a": "```"}\<newline>```''\<close>
    by (simp_all add: norm_eval)
  have a: \<open>json_loads (py ''{"a": "```"}'') = Inr (JObj [(py ''a'', JStr (py ''```''))])\<close>
    by (simp add: json_eval)
  have b: \<open>normalize_reply (py ''{"a": "```"}'') = py ''{"a": "```"}''\<close>
    by (simp add: norm_eval)
  have c: \<open>normalize_reply (fenced_json (py ''{"a": "```"}'')) = py ''{"a": ""}''\<close>
    by (simp add: norm_eval)
  have d: \<open>normalize_reply (fenced (py ''{"a": "```"}'')) = py ''{"a": ""}''\<close>
    by (simp add: norm_eval)
  have e: \<open>json_loads (py ''{"a": ""}'') = Inr (JObj [(py ''a'', JStr [])])\<close>
    by (simp add: json_eval)
  have g: \<open>json_loads (py ''{"a": "```"}'') = Inr (JObj [(py ''a'', JStr (py ''```''))]) \<and>
   parse_reply (py ''{"a": "```"}'') = Inr (JObj [(py ''a'', JStr (py ''```''))]) \<and>
   parse_reply (fenced_json (py ''{"a": "```"}'')) = Inr (JObj [(py ''a'', JStr [])]) \<and>
   parse_reply (fenced (py ''{"a": "```"}'')) = Inr (JObj [(py ''a'', JStr [])]) \<and>
   parse_reply (fenced_json (py ''{"a": "```"}'')) \<noteq> parse_reply (py ''{"a": "```"}'')\<close>
    unfolding parse_reply_def a b c d e by (simp add: py_def)
  show ?thesis
    using f g by (intro conjI) blast+
qed

section \<open>Text extraction (C8)\<close>

text \<open>
  Joining with a newline, as the source does, gives the texts separated by a newline, and
  decoding the UTF-8 encoding of a string of scalar values gives the string back.
\<close>

lemma join_newline: "join (py ''\<newline>'') pages = newline_separated pages"
proof (induction "py ''\<newline>''" pages rule: join.induct)
  case 1
  then show ?case by simp
next
  case (2 x)
  then show ?case by simp
next
  case (3 x y ys)
  then show ?case by (simp add: py_def)
qed

lemma unat_byte: "n < 256 \<Longrightarrow> unat (of_nat n :: byte) = n"
  by (simp add: unat_of_nat)





lemma split3: "c div 0x1000 * 0x1000 + c div 0x40 mod 0x40 * 0x40 + c mod 0x40 = (c :: nat)"
proof -
  define q where "q = c div 0x40"
  define r where "r = c mod 0x40"
  define q1 where "q1 = q div 0x40"
  define r1 where "r1 = q mod 0x40"
  have a: "c div 0x1000 = q1"
    by (simp add: q1_def q_def div_mult2_eq)
  have f1: "c = q * 0x40 + r"
    by (simp add: q_def r_def)
  have f2: "q = q1 * 0x40 + r1"
    by (simp add: q1_def r1_def)
  have "q1 * 0x1000 + r1 * 0x40 + r = c"
    using f1 f2 by linarith
  then show ?thesis
    by (simp only: a q_def [symmetric] r_def [symmetric] r1_def [symmetric])
qed

lemma split4:
  "c div 0x40000 * 0x40000 + c div 0x1000 mod 0x40 * 0x1000 + c div 0x40 mod 0x40 * 0x40 +
   c mod 0x40 = (c :: nat)"
proof -
  define p where "p = c div 0x1000"
  define p1 where "p1 = p div 0x40"
  define s1 where "s1 = p mod 0x40"
  define m where "m = c div 0x40 mod 0x40 * 0x40 + c mod 0x40"
  have a: "c div 0x40000 = p1"
    by (simp add: p1_def p_def div_mult2_eq)
  have f1: "p * 0x1000 + m = c"
    using split3 [of c] by (simp add: p_def m_def)
  have f2: "p = p1 * 0x40 + s1"
    by (simp add: p1_def s1_def)
  have "p1 * 0x40000 + s1 * 0x1000 + m = c"
    using f1 f2 by linarith
  then show ?thesis
    by (simp only: a p_def [symmetric] s1_def [symmetric] m_def add.assoc)
qed

lemma utf8_head_3:
  assumes 3: "0x800 \<le> c" "c < 0x10000" and sc: "scalar c"
  shows "utf8_head (utf8_char c @ rest) = Some (c, length (utf8_char c))"
proof -
  define b0 where "b0 = 0xE0 + c div 0x1000"
  define b1 where "b1 = 0x80 + c div 0x40 mod 0x40"
  define b2 where "b2 = 0x80 + c mod 0x40"
  have e: "utf8_char c = [of_nat b0, of_nat b1, of_nat b2]"
    using 3 by (simp add: utf8_char_def b0_def b1_def b2_def)
  have d: "c div 0x1000 < 0x10"
    by (rule less_mult_imp_div_less) (use 3 in simp)
  have m: "c div 0x40 mod 0x40 < 0x40" "c mod 0x40 < 0x40"
    by simp_all
  have b: "\<not> b0 < 0x80" "\<not> (0xC2 \<le> b0 \<and> b0 \<le> 0xDF)" "0xE0 \<le> b0" "b0 \<le> 0xEF"
    "0x80 \<le> b1" "b1 \<le> 0xBF" "0x80 \<le> b2" "b2 \<le> 0xBF"
    "b0 < 256" "b1 < 256" "b2 < 256"
    unfolding b0_def b1_def b2_def using d m by linarith+
  have u: "unat (of_nat b0 :: byte) = b0" "unat (of_nat b1 :: byte) = b1"
    "unat (of_nat b2 :: byte) = b2"
    using b by (simp_all only: unat_byte)
  have r: "(b0 - 0xE0) * 0x1000 + (b1 - 0x80) * 0x40 + (b2 - 0x80) = c"
    unfolding b0_def b1_def b2_def using split3 [of c] by (simp only: add_diff_cancel_left')
  have s: "0x800 \<le> c" "\<not> (0xD800 \<le> c \<and> c \<le> 0xDFFF)"
    using sc 3 by (auto simp: scalar_def)
  show ?thesis
    unfolding e utf8_head_def
    by (simp add: u b r s continuation_def Let_def)
qed

lemma utf8_head_1:
  assumes 1: "c < 0x80"
  shows "utf8_head (utf8_char c @ rest) = Some (c, length (utf8_char c))"
proof -
  have e: "utf8_char c = [of_nat c]"
    using 1 by (simp add: utf8_char_def)
  have u: "unat (of_nat c :: byte) = c"
    using 1 by (intro unat_byte) simp
  show ?thesis
    unfolding e utf8_head_def using 1 by (simp add: u)
qed

lemma utf8_head_2:
  assumes 2: "0x80 \<le> c" "c < 0x800"
  shows "utf8_head (utf8_char c @ rest) = Some (c, length (utf8_char c))"
proof -
  define b0 where "b0 = 0xC0 + c div 0x40"
  define b1 where "b1 = 0x80 + c mod 0x40"
  have e: "utf8_char c = [of_nat b0, of_nat b1]"
    using 2 by (simp add: utf8_char_def b0_def b1_def)
  have d: "c div 0x40 < 0x20"
    by (rule less_mult_imp_div_less) (use 2 in simp)
  have d': "2 \<le> c div 0x40"
    using 2 div_le_mono [of "0x80" c "0x40"] by simp
  have m: "c mod 0x40 < 0x40"
    by simp
  have b: "0xC2 \<le> b0" "b0 \<le> 0xDF" "\<not> b0 < 0x80" "0x80 \<le> b1" "b1 \<le> 0xBF"
    "b0 < 256" "b1 < 256"
    unfolding b0_def b1_def using d d' m by linarith+
  have u: "unat (of_nat b0 :: byte) = b0" "unat (of_nat b1 :: byte) = b1"
    using b by (simp_all only: unat_byte)
  have r: "(b0 - 0xC0) * 0x40 + (b1 - 0x80) = c"
    unfolding b0_def b1_def by (simp only: add_diff_cancel_left' div_mult_mod_eq)
  show ?thesis
    unfolding e utf8_head_def
    by (simp add: u b r continuation_def Let_def)
qed

lemma utf8_head_4:
  assumes 4: "0x10000 \<le> c" "c \<le> 0x10FFFF"
  shows "utf8_head (utf8_char c @ rest) = Some (c, length (utf8_char c))"
proof -
  define b0 where "b0 = 0xF0 + c div 0x40000"
  define b1 where "b1 = 0x80 + c div 0x1000 mod 0x40"
  define b2 where "b2 = 0x80 + c div 0x40 mod 0x40"
  define b3 where "b3 = 0x80 + c mod 0x40"
  have e: "utf8_char c = [of_nat b0, of_nat b1, of_nat b2, of_nat b3]"
    using 4 by (simp add: utf8_char_def b0_def b1_def b2_def b3_def)
  have d: "c div 0x40000 < 5"
    by (rule less_mult_imp_div_less) (use 4 in simp)
  have m: "c div 0x1000 mod 0x40 < 0x40" "c div 0x40 mod 0x40 < 0x40" "c mod 0x40 < 0x40"
    by simp_all
  have b: "\<not> b0 < 0x80" "\<not> (0xC2 \<le> b0 \<and> b0 \<le> 0xDF)" "\<not> (0xE0 \<le> b0 \<and> b0 \<le> 0xEF)"
    "0xF0 \<le> b0" "b0 \<le> 0xF4"
    "0x80 \<le> b1" "b1 \<le> 0xBF" "0x80 \<le> b2" "b2 \<le> 0xBF" "0x80 \<le> b3" "b3 \<le> 0xBF"
    "b0 < 256" "b1 < 256" "b2 < 256" "b3 < 256"
    unfolding b0_def b1_def b2_def b3_def using d m by linarith+
  have u: "unat (of_nat b0 :: byte) = b0" "unat (of_nat b1 :: byte) = b1"
    "unat (of_nat b2 :: byte) = b2" "unat (of_nat b3 :: byte) = b3"
    using b by (simp_all only: unat_byte)
  have r: "(b0 - 0xF0) * 0x40000 + (b1 - 0x80) * 0x1000 + (b2 - 0x80) * 0x40 + (b3 - 0x80) = c"
    unfolding b0_def b1_def b2_def b3_def using split4 [of c]
    by (simp only: add_diff_cancel_left')
  show ?thesis
    unfolding e utf8_head_def
    by (simp add: u b r 4 continuation_def Let_def)
qed

lemma utf8_head_char:
  assumes "scalar c"
  shows "utf8_head (utf8_char c @ rest) = Some (c, length (utf8_char c))"
proof -
  consider "c < 0x80" | "0x80 \<le> c" "c < 0x800" | "0x800 \<le> c" "c < 0x10000"
    | "0x10000 \<le> c" "c \<le> 0x10FFFF"
    using assms unfolding scalar_def by atomize_elim arith
  then show ?thesis
    using assms by cases (rule utf8_head_1 utf8_head_2 utf8_head_3 utf8_head_4; assumption)+
qed

lemma utf8_char_nonempty: "utf8_char c \<noteq> []"
  by (simp add: utf8_char_def)

lemma utf8_decode_char:
  assumes "scalar c"
  shows "utf8_decode (utf8_char c @ rest) =
         (case utf8_decode rest of Inl e \<Rightarrow> Inl e | Inr s \<Rightarrow> Inr (c # s))"
proof -
  obtain b bs where e: "utf8_char c = b # bs"
    using utf8_char_nonempty [of c] by (cases "utf8_char c") auto
  have "utf8_head ((b # bs) @ rest) = Some (c, length (b # bs))"
    using utf8_head_char [OF assms, of rest] by (simp add: e)
  then show ?thesis
    by (simp add: e)
qed

lemma utf8_roundtrip: "\<forall>c \<in> set s. scalar c \<Longrightarrow> utf8_decode (utf8_encode s) = Inr s"
  by (induction s) (simp_all add: utf8_encode_def utf8_decode_char)

text \<open>
  C8. The text extracted from a PDF file is the texts of its pages, in the order the
  library gives them, separated by a newline; the text extracted from a DOCX file is the
  texts of its paragraphs in document order, separated by a newline; an exception of the
  library is passed on. The text extracted from a plain text file is its bytes decoded as
  UTF-8: for a file that holds the UTF-8 encoding of a string, that string.
\<close>

theorem C8_extracted_text:
  "extract_text_from_pdf pdf_pages pdf_file =
     (case pdf_pages (file_bytes pdf_file) of
        Inl e \<Rightarrow> Inl e
      | Inr pages \<Rightarrow> Inr (newline_separated pages)) \<and>
   extract_text_from_docx docx_paragraphs docx_file =
     (case docx_paragraphs (file_bytes docx_file) of
        Inl e \<Rightarrow> Inl e
      | Inr paragraphs \<Rightarrow> Inr (newline_separated paragraphs)) \<and>
   extract_text_from_txt txt_file = utf8_decode (file_bytes txt_file) \<and>
   ((\<forall>c \<in> set s. scalar c) \<and> file_bytes txt_file = utf8_encode s \<longrightarrow>
      extract_text_from_txt txt_file = Inr s) \<and>
   newline_separated [p] = p \<and>
   newline_separated (p # q # ps) = p @ [0x0A] @ newline_separated (q # ps)"
proof (intro conjI impI)
  show "extract_text_from_pdf pdf_pages pdf_file =
     (case pdf_pages (file_bytes pdf_file) of
        Inl e \<Rightarrow> Inl e
      | Inr pages \<Rightarrow> Inr (newline_separated pages))"
    by (simp add: extract_text_from_pdf_def join_newline bind_def split: sum.splits)
next
  show "extract_text_from_docx docx_paragraphs docx_file =
     (case docx_paragraphs (file_bytes docx_file) of
        Inl e \<Rightarrow> Inl e
      | Inr paragraphs \<Rightarrow> Inr (newline_separated paragraphs))"
    by (simp add: extract_text_from_docx_def join_newline bind_def split: sum.splits)
next
  show "extract_text_from_txt txt_file = utf8_decode (file_bytes txt_file)"
    by (simp add: extract_text_from_txt_def)
next
  assume "(\<forall>c \<in> set s. scalar c) \<and> file_bytes txt_file = utf8_encode s"
  then show "extract_text_from_txt txt_file = Inr s"
    by (simp add: extract_text_from_txt_def utf8_roundtrip)
qed simp_all

theorem C8_extracted_text_witness:
  "extract_text_from_txt \<lparr>file_name = py ''cv.txt'', file_bytes = [0x43, 0xC3, 0xA9, 0xE2, 0x80, 0xA2, 0xF0, 0x9F, 0x93, 0x84]\<rparr> =
     Inr [0x43, 0xE9, 0x2022, 0x1F4C4] \<and>
   extract_text_from_pdf (\<lambda>bs. Inr [py ''page one'', [], py ''page three''])
     \<lparr>file_name = py ''cv.pdf'', file_bytes = []\<rparr> =
     Inr (py ''page one'' @ [0x0A, 0x0A] @ py ''page three'')"
proof -
  let ?f = "\<lparr>file_name = py ''cv.txt'', file_bytes = [0x43, 0xC3, 0xA9, 0xE2, 0x80, 0xA2, 0xF0, 0x9F, 0x93, 0x84]\<rparr>"
  let ?s = "[0x43, 0xE9, 0x2022, 0x1F4C4] :: pystr"
  let ?g = "\<lparr>file_name = py ''cv.pdf'', file_bytes = []\<rparr>"
  let ?pages = "\<lambda>bs :: byte list. Inr [py ''page one'', [], py ''page three''] :: exn + pystr list"
  note C = C8_extracted_text [of ?pages ?g ?pages ?g ?f ?s]
  have h: "(\<forall>c \<in> set ?s. scalar c) \<and> file_bytes ?f = utf8_encode ?s"
    by (simp add: scalar_def utf8_encode_def utf8_char_def)
  from C h have w1: "extract_text_from_txt ?f = Inr ?s"
    by blast
  from C have "extract_text_from_pdf ?pages ?g =
     (case ?pages (file_bytes ?g) of
        Inl e \<Rightarrow> Inl e
      | Inr pages \<Rightarrow> Inr (newline_separated pages))"
    by blast
  then have w2: "extract_text_from_pdf ?pages ?g =
     Inr (py ''page one'' @ [0x0A, 0x0A] @ py ''page three'')"
    by simp
  show ?thesis
    using w1 w2 by (rule conjI)
qed
section \<open>The story of the report (C9)\<close>

lemma bind_Inr [simp]: "bind (Inr x) f = f x"
  by (simp add: bind_def)

lemma bind_Inl [simp]: "bind (Inl e) f = Inl e"
  by (simp add: bind_def)

lemma get_JObj [simp]: "get (JObj items) k dflt = Inr (item items k dflt)"
  by (simp add: get_def)

lemma bullet_JStr [simp]: "bullet repr (JStr s) = spec_bullet s"
  by (simp add: bullet_def spec_bullet_def py_str_def)

lemma bullets_strings [simp]: "bullets repr (JArr (map JStr xs)) = Inr (map spec_bullet xs)"
  by (simp add: bullets_def)

lemma list_block_strings [simp]:
  "list_block repr title (JArr (map JStr xs)) after = Inr (spec_list_block title xs after)"
  by (simp add: list_block_def spec_list_block_def)

lemma list_block_JArr:
  "list_block repr title (JArr xs) after =
     Inr (if xs = [] then [] else heading title # map (bullet repr) xs @ after)"
  by (simp add: list_block_def bullets_def)

lemma story_typed:
  assumes "item a (py ''sections_detected'') (JArr []) = JArr (map JStr sections)"
    and "item a (py ''missing_sections'') (JArr []) = JArr (map JStr missing)"
    and "item a (py ''skills_sentiment_summary'') (JStr []) = JStr sentiment"
    and "item a (py ''improvement_suggestions'') (JArr []) = JArr (map JStr suggestions)"
    and "item t (py ''ats_recommendations'') (JArr []) = JArr (map JStr ats_recs)"
    and "item t (py ''jargon_detected'') (JArr []) = JArr (map JStr jargon)"
  shows "story repr (JObj a) (JObj t) =
         Inr (spec_report (py_str repr (item a (py ''resume_quality_score'') (JStr (py ''N/A''))))
                sections missing sentiment suggestions ats_recs jargon)"
  unfolding story_def by (simp add: assms spec_report_def)


lemma heading_eq [simp]: "heading a = heading b \<longleftrightarrow> a = b"
  by (simp add: heading_def)

lemma heading_not_bullet [simp]: "heading a \<noteq> spec_bullet s" "spec_bullet s \<noteq> heading a"
  by (simp_all add: heading_def spec_bullet_def)

lemma heading_in_bullets [simp]: "heading a \<notin> spec_bullet ` S"
  by auto

lemma spec_bullet_eq [simp]: "spec_bullet a = spec_bullet b \<longleftrightarrow> a = b"
  by (simp add: spec_bullet_def)

lemma heading_Paragraph [simp]:
  "heading a = Paragraph x s \<longleftrightarrow> x = JStr a \<and> s = Stylesheet ''Heading3''"
  by (auto simp: heading_def)

lemma heading_Spacer [simp]: "heading a \<noteq> Spacer w h"
  by (simp add: heading_def)

lemma heading_in_block:
  "heading a \<in> set (spec_list_block title xs after) \<longleftrightarrow>
   xs \<noteq> [] \<and> (a = title \<or> heading a \<in> set after)"
  by (auto simp: spec_list_block_def)

lemma heading_in_report:
  "heading (py ''<b>Missing Sections:</b>'') \<in>
     set (spec_report score sections missing sentiment suggestions ats_recs jargon)
   \<longleftrightarrow> missing \<noteq> []"
  "heading (py ''<b>Improvement Suggestions:</b>'') \<in>
     set (spec_report score sections missing sentiment suggestions ats_recs jargon)
   \<longleftrightarrow> suggestions \<noteq> []"
  "heading (py ''<b>ATS-Friendly Recommendations:</b>'') \<in>
     set (spec_report score sections missing sentiment suggestions ats_recs jargon)
   \<longleftrightarrow> ats_recs \<noteq> []"
  "heading (py ''<b>Jargon/Filler Phrases Detected:</b>'') \<in>
     set (spec_report score sections missing sentiment suggestions ats_recs jargon)
   \<longleftrightarrow> jargon \<noteq> []"
  by (simp_all add: spec_report_def heading_in_block title_style_def py_def)


lemma seek_write_empty [simp]:
  "seek 0 (write_bytes pdf \<lparr>getvalue = [], tell = 0\<rparr>) = \<lparr>getvalue = pdf, tell = 0\<rparr>"
  by (simp add: seek_def write_bytes_def)

lemma story_ats_fields:
  assumes "item t (py ''ats_recommendations'') (JArr []) = item t' (py ''ats_recommendations'') (JArr [])"
    and "item t (py ''jargon_detected'') (JArr []) = item t' (py ''jargon_detected'') (JArr [])"
  shows "story repr a (JObj t) = story repr a (JObj t')"
  unfolding story_def by (simp add: assms)

text \<open>
  C9. The story reads two fields of the ATS record, \<open>ats_recommendations\<close> and
  \<open>jargon_detected\<close>: two records that agree on them give the same story, so adding or
  changing \<open>filler_phrases\<close> changes nothing. The jargon block is empty for an empty
  \<open>jargon_detected\<close> and otherwise the heading and one bullet per element of
  \<open>jargon_detected\<close>; in the story of typed records the heading occurs exactly when
  \<open>jargon_detected\<close> is not empty.
\<close>

theorem C9_jargon_only:
  "(item t (py ''ats_recommendations'') (JArr []) = item t' (py ''ats_recommendations'') (JArr []) \<and>
    item t (py ''jargon_detected'') (JArr []) = item t' (py ''jargon_detected'') (JArr []) \<longrightarrow>
    story repr a (JObj t) = story repr a (JObj t')) \<and>
   story repr a (JObj ((py ''filler_phrases'', v) # t)) = story repr a (JObj t) \<and>
   list_block repr (py ''<b>Jargon/Filler Phrases Detected:</b>'') (JArr xs) [] =
     Inr (if xs = [] then []
          else heading (py ''<b>Jargon/Filler Phrases Detected:</b>'') # map (bullet repr) xs) \<and>
   (item d (py ''sections_detected'') (JArr []) = JArr (map JStr sections) \<and>
    item d (py ''missing_sections'') (JArr []) = JArr (map JStr missing) \<and>
    item d (py ''skills_sentiment_summary'') (JStr []) = JStr sentiment \<and>
    item d (py ''improvement_suggestions'') (JArr []) = JArr (map JStr suggestions) \<and>
    item t (py ''ats_recommendations'') (JArr []) = JArr (map JStr ats_recs) \<and>
    item t (py ''jargon_detected'') (JArr []) = JArr (map JStr jargon) \<longrightarrow>
    (\<exists>st. story repr (JObj d) (JObj t) = Inr st \<and>
       st = spec_report (py_str repr (item d (py ''resume_quality_score'') (JStr (py ''N/A''))))
              sections missing sentiment suggestions ats_recs jargon \<and>
       (heading (py ''<b>Jargon/Filler Phrases Detected:</b>'') \<in> set st \<longleftrightarrow> jargon \<noteq> [])))"
proof -
  have "story repr a (JObj ((py ''filler_phrases'', v) # t)) = story repr a (JObj t)"
    by (rule story_ats_fields) (simp_all add: item_def py_def)
  then show ?thesis
    using story_typed [of d sections missing sentiment suggestions t ats_recs jargon repr]
      story_ats_fields [of t t' repr a]
    by (simp add: heading_in_report list_block_JArr)
qed

theorem C9_jargon_only_witness:
  "story (\<lambda>v. []) (JObj []) (JObj [(py ''filler_phrases'', JArr [JStr (py ''very'')])]) =
     story (\<lambda>v. []) (JObj []) (JObj []) \<and>
   story (\<lambda>v. []) (JObj [])
     (JObj [(py ''jargon_detected'', JArr [JStr (py ''synergy'')]),
            (py ''filler_phrases'', JArr [JStr (py ''very'')])]) =
     Inr [Paragraph (JStr (py ''Resume Analysis Report'')) title_style,
          Spacer 1 20,
          Paragraph (JStr (py ''<b>Resume Quality Score: N/A/100</b>'')) (Stylesheet ''Heading2''),
          Spacer 1 12,
          heading (py ''<b>Sections Detected:</b>''),
          Spacer 1 12,
          heading (py ''<b>Jargon/Filler Phrases Detected:</b>''),
          Paragraph (JStr ([0x2022, 0x20] @ py ''synergy'')) (Stylesheet ''Normal'')]"
proof -
  let ?t = "[(py ''jargon_detected'', JArr [JStr (py ''synergy'')]),
             (py ''filler_phrases'', JArr [JStr (py ''very'')])]"
  let ?repr = "\<lambda>v :: json. [] :: pystr"
  have h:
    "item [] (py ''sections_detected'') (JArr []) = JArr (map JStr []) \<and>
     item [] (py ''missing_sections'') (JArr []) = JArr (map JStr []) \<and>
     item [] (py ''skills_sentiment_summary'') (JStr []) = JStr [] \<and>
     item [] (py ''improvement_suggestions'') (JArr []) = JArr (map JStr []) \<and>
     item ?t (py ''ats_recommendations'') (JArr []) = JArr (map JStr []) \<and>
     item ?t (py ''jargon_detected'') (JArr []) = JArr (map JStr [py ''synergy''])"
    by (simp add: item_def py_def)
  from C9_jargon_only [of ?t _ ?repr _ _ _ "[]" "[]" "[]" "[]" "[]" "[]" "[py ''synergy'']"] h
  have s1: "story ?repr (JObj []) (JObj ?t) =
      Inr (spec_report (py_str ?repr (item [] (py ''resume_quality_score'') (JStr (py ''N/A''))))
             [] [] [] [] [] [py ''synergy''])"
    by blast
  from C9_jargon_only [of "[]" _ ?repr "JObj []" "JArr [JStr (py ''very'')]"]
  have s2: "story ?repr (JObj []) (JObj [(py ''filler_phrases'', JArr [JStr (py ''very'')])]) =
            story ?repr (JObj []) (JObj [])"
    by blast
  show ?thesis
    unfolding s1 s2
    by (simp add: spec_report_def spec_list_block_def spec_bullet_def item_def py_str_def py_def)
qed




section \<open>The rendered report (C2, C5, C6, C7)\<close>

text \<open>
  The report is the bytes the PDF engine writes for the story, in a buffer positioned at
  offset 0. For records whose fields have the types of the data model the story is the
  layout of the specification.
\<close>

lemma gpr_eq:
  "generate_pdf_report repr doc_build a s t =
     bind (story repr a t) (\<lambda>flowables.
     bind (doc_build flowables) (\<lambda>pdf. Inr \<lparr>getvalue = pdf, tell = 0\<rparr>))"
  by (simp add: generate_pdf_report_def)

lemma strings_field_item:
  "strings_field d k xs \<Longrightarrow> item d k (JArr []) = JArr (map JStr xs)"
  by (simp add: strings_field_def item_def split: option.splits)

lemma string_field_item:
  "string_field d k s \<Longrightarrow> item d k (JStr []) = JStr s"
  by (simp add: string_field_def item_def split: option.splits)

lemma score_text:
  "py_str repr (item a (py ''resume_quality_score'') (JStr (py ''N/A''))) =
   (case map_of a (py ''resume_quality_score'') of
      None \<Rightarrow> py ''N/A''
    | Some v \<Rightarrow> py_str repr v)"
  by (simp add: item_def py_str_def split: option.splits)

lemma story_fields:
  assumes "strings_field a (py ''sections_detected'') sections"
    and "strings_field a (py ''missing_sections'') missing"
    and "string_field a (py ''skills_sentiment_summary'') sentiment"
    and "strings_field a (py ''improvement_suggestions'') suggestions"
    and "strings_field t (py ''ats_recommendations'') ats_recs"
    and "strings_field t (py ''jargon_detected'') jargon"
  shows "story repr (JObj a) (JObj t) =
         Inr (spec_report
                (case map_of a (py ''resume_quality_score'') of
                   None \<Rightarrow> py ''N/A''
                 | Some v \<Rightarrow> py_str repr v)
                sections missing sentiment suggestions ats_recs jargon)"
  using story_typed [of a sections missing sentiment suggestions t ats_recs jargon repr]
    assms
  by (simp add: strings_field_item string_field_item score_text)


lemma utf8_encode_Nil [simp]: "utf8_encode [] = []"
  by (simp add: utf8_encode_def)

lemma utf8_encode_append [simp]: "utf8_encode (a @ b) = utf8_encode a @ utf8_encode b"
  by (simp add: utf8_encode_def)

lemma utf8_encode_Cons: "utf8_encode (c # s) = utf8_char c @ utf8_encode s"
  by (simp add: utf8_encode_def)

lemma utf8_char_newline: "utf8_char 0x0A = [0x0A]"
  by (simp add: utf8_char_def)

lemmas engine_eval = spec_report_def spec_list_block_def spec_bullet_def heading_def
  title_style_def utf8_encode_Cons utf8_char_newline py_def






text \<open>
  C2, as the specification states it, fails: \<open>generate_pdf_report\<close> takes the structured
  resume as its second argument and never reads it, so no input exists for which changing
  that record alone changes the report.
\<close>

theorem C2_counterexample:
  "\<not> (\<exists>repr doc_build analysis_data s1 s2 ats_data.
        generate_pdf_report repr doc_build analysis_data s1 ats_data \<noteq>
        generate_pdf_report repr doc_build analysis_data s2 ats_data)"
  by (simp add: generate_pdf_report_def)

text \<open>
  C2, amended. The report combines the quality analysis and the ATS record only: it is
  what the PDF engine writes for the story built from these two, the same for every
  structured resume. It depends on each of the two: the report without a list of missing
  sections, the report with one missing section and the report with one jargon phrase
  are what the engine writes for three different stories, so that with every engine that
  writes other bytes for them, the bytes of the report change when the quality analysis
  alone, or the ATS record alone, is changed; the plain-text engine is such an engine.
\<close>

theorem C2_report_inputs:
  "(\<forall>s1 s2. generate_pdf_report repr doc_build analysis_data s1 ats_data =
             generate_pdf_report repr doc_build analysis_data s2 ats_data) \<and>
   generate_pdf_report repr doc_build analysis_data structured_data ats_data =
     bind (story repr analysis_data ats_data) (\<lambda>flowables.
     bind (doc_build flowables) (\<lambda>pdf. Inr \<lparr>getvalue = pdf, tell = 0\<rparr>)) \<and>
   (doc_build (spec_report (py ''N/A'') [] [] [] [] [] []) = Inr p0 \<and>
    doc_build (spec_report (py ''N/A'') [] [x] [] [] [] []) = Inr p1 \<and>
    doc_build (spec_report (py ''N/A'') [] [] [] [] [] [x]) = Inr p2 \<and>
    p1 \<noteq> p0 \<and> p2 \<noteq> p0 \<longrightarrow>
    (\<exists>b0 b1 b2.
       generate_pdf_report repr doc_build (JObj []) structured_data (JObj []) = Inr b0 \<and>
       generate_pdf_report repr doc_build
         (JObj [(py ''missing_sections'', JArr [JStr x])]) structured_data (JObj []) = Inr b1 \<and>
       generate_pdf_report repr doc_build
         (JObj []) structured_data (JObj [(py ''jargon_detected'', JArr [JStr x])]) = Inr b2 \<and>
       getvalue b0 = p0 \<and> getvalue b1 = p1 \<and> getvalue b2 = p2 \<and>
       getvalue b1 \<noteq> getvalue b0 \<and> getvalue b2 \<noteq> getvalue b0)) \<and>
   generate_pdf_report repr plain_text_engine (JObj []) structured_data (JObj []) =
     Inr \<lparr>getvalue = utf8_encode (py
            ''Resume Analysis Report\<newline><b>Resume Quality Score: N/A/100</b>\<newline><b>Sections Detected:</b>\<newline>''),
          tell = 0\<rparr> \<and>
   generate_pdf_report repr plain_text_engine
     (JObj [(py ''missing_sections'', JArr [JStr x])]) structured_data (JObj []) =
     Inr \<lparr>getvalue = utf8_encode (py
            ''Resume Analysis Report\<newline><b>Resume Quality Score: N/A/100</b>\<newline><b>Sections Detected:</b>\<newline>'')
            @ utf8_encode (py ''<b>Missing Sections:</b>\<newline>'' @ [0x2022, 0x20] @ x @ [0x0A]),
          tell = 0\<rparr> \<and>
   generate_pdf_report repr plain_text_engine
     (JObj []) structured_data (JObj [(py ''jargon_detected'', JArr [JStr x])]) =
     Inr \<lparr>getvalue = utf8_encode (py
            ''Resume Analysis Report\<newline><b>Resume Quality Score: N/A/100</b>\<newline><b>Sections Detected:</b>\<newline>'')
            @ utf8_encode (py ''<b>Jargon/Filler Phrases Detected:</b>\<newline>'' @ [0x2022, 0x20] @ x @ [0x0A]),
          tell = 0\<rparr> \<and>
   utf8_encode (py
      ''Resume Analysis Report\<newline><b>Resume Quality Score: N/A/100</b>\<newline><b>Sections Detected:</b>\<newline>'')
     @ utf8_encode (py ''<b>Missing Sections:</b>\<newline>'' @ [0x2022, 0x20] @ x @ [0x0A]) \<noteq>
   utf8_encode (py
      ''Resume Analysis Report\<newline><b>Resume Quality Score: N/A/100</b>\<newline><b>Sections Detected:</b>\<newline>'') \<and>
   utf8_encode (py
      ''Resume Analysis Report\<newline><b>Resume Quality Score: N/A/100</b>\<newline><b>Sections Detected:</b>\<newline>'')
     @ utf8_encode (py ''<b>Jargon/Filler Phrases Detected:</b>\<newline>'' @ [0x2022, 0x20] @ x @ [0x0A]) \<noteq>
   utf8_encode (py
      ''Resume Analysis Report\<newline><b>Resume Quality Score: N/A/100</b>\<newline><b>Sections Detected:</b>\<newline>'')"
proof -
  let ?m = "[(py ''missing_sections'', JArr [JStr x])]"
  let ?j = "[(py ''jargon_detected'', JArr [JStr x])]"
  have e: "story repr (JObj []) (JObj []) = Inr (spec_report (py ''N/A'') [] [] [] [] [] [])"
    using story_fields [of "[]" "[]" "[]" "[]" "[]" "[]" "[]" "[]" repr]
    by (simp add: strings_field_def string_field_def)
  have m: "story repr (JObj ?m) (JObj []) = Inr (spec_report (py ''N/A'') [] [x] [] [] [] [])"
    using story_fields [of ?m "[]" "[x]" "[]" "[]" "[]" "[]" "[]" repr]
    by (simp add: strings_field_def string_field_def py_def)
  have j: "story repr (JObj []) (JObj ?j) = Inr (spec_report (py ''N/A'') [] [] [] [] [] [x])"
    using story_fields [of "[]" "[]" "[]" "[]" "[]" ?j "[]" "[x]" repr]
    by (simp add: strings_field_def string_field_def py_def)
  have c1: "\<forall>s1 s2. generate_pdf_report repr doc_build analysis_data s1 ats_data =
             generate_pdf_report repr doc_build analysis_data s2 ats_data"
    by (simp add: generate_pdf_report_def)
  have c2: "generate_pdf_report repr doc_build analysis_data structured_data ats_data =
     bind (story repr analysis_data ats_data) (\<lambda>flowables.
     bind (doc_build flowables) (\<lambda>pdf. Inr \<lparr>getvalue = pdf, tell = 0\<rparr>))"
    by (rule gpr_eq)
  have c3: "doc_build (spec_report (py ''N/A'') [] [] [] [] [] []) = Inr p0 \<and>
    doc_build (spec_report (py ''N/A'') [] [x] [] [] [] []) = Inr p1 \<and>
    doc_build (spec_report (py ''N/A'') [] [] [] [] [] [x]) = Inr p2 \<and>
    p1 \<noteq> p0 \<and> p2 \<noteq> p0 \<longrightarrow>
    (\<exists>b0 b1 b2.
       generate_pdf_report repr doc_build (JObj []) structured_data (JObj []) = Inr b0 \<and>
       generate_pdf_report repr doc_build (JObj ?m) structured_data (JObj []) = Inr b1 \<and>
       generate_pdf_report repr doc_build (JObj []) structured_data (JObj ?j) = Inr b2 \<and>
       getvalue b0 = p0 \<and> getvalue b1 = p1 \<and> getvalue b2 = p2 \<and>
       getvalue b1 \<noteq> getvalue b0 \<and> getvalue b2 \<noteq> getvalue b0)"
    unfolding gpr_eq e m j by simp
  have c4: "generate_pdf_report repr plain_text_engine (JObj []) structured_data (JObj []) =
     Inr \<lparr>getvalue = utf8_encode (py
            ''Resume Analysis Report\<newline><b>Resume Quality Score: N/A/100</b>\<newline><b>Sections Detected:</b>\<newline>''),
          tell = 0\<rparr>"
    unfolding gpr_eq e by (simp add: engine_eval)
  have c5: "generate_pdf_report repr plain_text_engine (JObj ?m) structured_data (JObj []) =
     Inr \<lparr>getvalue = utf8_encode (py
            ''Resume Analysis Report\<newline><b>Resume Quality Score: N/A/100</b>\<newline><b>Sections Detected:</b>\<newline>'')
            @ utf8_encode (py ''<b>Missing Sections:</b>\<newline>'' @ [0x2022, 0x20] @ x @ [0x0A]),
          tell = 0\<rparr>"
    unfolding gpr_eq m by (simp add: engine_eval)
  have c6: "generate_pdf_report repr plain_text_engine (JObj []) structured_data (JObj ?j) =
     Inr \<lparr>getvalue = utf8_encode (py
            ''Resume Analysis Report\<newline><b>Resume Quality Score: N/A/100</b>\<newline><b>Sections Detected:</b>\<newline>'')
            @ utf8_encode (py ''<b>Jargon/Filler Phrases Detected:</b>\<newline>'' @ [0x2022, 0x20] @ x @ [0x0A]),
          tell = 0\<rparr>"
    unfolding gpr_eq j by (simp add: engine_eval)
  have c7: "p @ utf8_encode (py ''<b>Missing Sections:</b>\<newline>'' @ [0x2022, 0x20] @ x @ [0x0A]) \<noteq> p"
    for p
    by (simp add: py_def utf8_encode_Cons utf8_char_nonempty)
  have c8: "p @ utf8_encode (py ''<b>Jargon/Filler Phrases Detected:</b>\<newline>'' @ [0x2022, 0x20] @ x @ [0x0A]) \<noteq> p"
    for p
    by (simp add: py_def utf8_encode_Cons utf8_char_nonempty)
  show ?thesis
    by (intro conjI c1 c2 c3 c4 c5 c6 c7 c8)
qed

theorem C2_report_inputs_witness:
  "generate_pdf_report (\<lambda>v. []) plain_text_engine (JObj []) (JObj [(py ''skills'', JArr [])]) (JObj []) =
     generate_pdf_report (\<lambda>v. []) plain_text_engine (JObj []) JNull (JObj []) \<and>
   (\<exists>b0 b1 b2.
       generate_pdf_report (\<lambda>v. []) plain_text_engine (JObj []) JNull (JObj []) = Inr b0 \<and>
       generate_pdf_report (\<lambda>v. []) plain_text_engine
         (JObj [(py ''missing_sections'', JArr [JStr (py ''Certifications'')])]) JNull (JObj []) = Inr b1 \<and>
       generate_pdf_report (\<lambda>v. []) plain_text_engine
         (JObj []) JNull (JObj [(py ''jargon_detected'', JArr [JStr (py ''Certifications'')])]) = Inr b2 \<and>
       getvalue b0 = utf8_encode (py
            ''Resume Analysis Report\<newline><b>Resume Quality Score: N/A/100</b>\<newline><b>Sections Detected:</b>\<newline>'') \<and>
       getvalue b1 = utf8_encode (py
            ''Resume Analysis Report\<newline><b>Resume Quality Score: N/A/100</b>\<newline><b>Sections Detected:</b>\<newline><b>Missing Sections:</b>\<newline>''
            @ [0x2022, 0x20] @ py ''Certifications\<newline>'') \<and>
       getvalue b2 = utf8_encode (py
            ''Resume Analysis Report\<newline><b>Resume Quality Score: N/A/100</b>\<newline><b>Sections Detected:</b>\<newline><b>Jargon/Filler Phrases Detected:</b>\<newline>''
            @ [0x2022, 0x20] @ py ''Certifications\<newline>'') \<and>
       getvalue b1 \<noteq> getvalue b0 \<and> getvalue b2 \<noteq> getvalue b0)"
proof -
  let ?repr = "\<lambda>v :: json. [] :: pystr"
  let ?x = "py ''Certifications''"
  let ?p0 = "utf8_encode (py
            ''Resume Analysis Report\<newline><b>Resume Quality Score: N/A/100</b>\<newline><b>Sections Detected:</b>\<newline>'')"
  let ?p1 = "utf8_encode (py
            ''Resume Analysis Report\<newline><b>Resume Quality Score: N/A/100</b>\<newline><b>Sections Detected:</b>\<newline><b>Missing Sections:</b>\<newline>''
            @ [0x2022, 0x20] @ py ''Certifications\<newline>'')"
  let ?p2 = "utf8_encode (py
            ''Resume Analysis Report\<newline><b>Resume Quality Score: N/A/100</b>\<newline><b>Sections Detected:</b>\<newline><b>Jargon/Filler Phrases Detected:</b>\<newline>''
            @ [0x2022, 0x20] @ py ''Certifications\<newline>'')"
  note C = C2_report_inputs [of ?repr plain_text_engine "JObj []" "JObj []" JNull ?p0 ?x ?p1 ?p2]
  have h0: "plain_text_engine (spec_report (py ''N/A'') [] [] [] [] [] []) = Inr ?p0"
    by (simp add: engine_eval)
  have h1: "plain_text_engine (spec_report (py ''N/A'') [] [?x] [] [] [] []) = Inr ?p1"
    by (simp add: engine_eval)
  have h2: "plain_text_engine (spec_report (py ''N/A'') [] [] [] [] [] [?x]) = Inr ?p2"
    by (simp add: engine_eval)
  have d1: "?p1 \<noteq> ?p0"
    by (simp add: py_def utf8_encode_Cons utf8_char_nonempty)
  have d2: "?p2 \<noteq> ?p0"
    by (simp add: py_def utf8_encode_Cons utf8_char_nonempty)
  from C have w1: "generate_pdf_report ?repr plain_text_engine (JObj []) (JObj [(py ''skills'', JArr [])]) (JObj []) =
     generate_pdf_report ?repr plain_text_engine (JObj []) JNull (JObj [])"
    by blast
  from C h0 h1 h2 d1 d2 have w2: "\<exists>b0 b1 b2.
       generate_pdf_report ?repr plain_text_engine (JObj []) JNull (JObj []) = Inr b0 \<and>
       generate_pdf_report ?repr plain_text_engine
         (JObj [(py ''missing_sections'', JArr [JStr ?x])]) JNull (JObj []) = Inr b1 \<and>
       generate_pdf_report ?repr plain_text_engine
         (JObj []) JNull (JObj [(py ''jargon_detected'', JArr [JStr ?x])]) = Inr b2 \<and>
       getvalue b0 = ?p0 \<and> getvalue b1 = ?p1 \<and> getvalue b2 = ?p2 \<and>
       getvalue b1 \<noteq> getvalue b0 \<and> getvalue b2 \<noteq> getvalue b0"
    by blast
  show ?thesis
    using w1 w2 by (rule conjI)
qed

text \<open>
  C5. For a quality record and an ATS record whose list fields are sequences of strings
  (a missing key counts as the empty sequence), the report is what the PDF engine writes
  for the layout of the specification: a list block is left out when its sequence is
  empty, and is otherwise its heading, one bullet (the bullet sign, a space, the text) for
  each element in order, and a spacer. The heading of the missing sections (of the
  improvement suggestions) is in the layout exactly when that sequence is not empty. For
  a list of any JSON values the block is the heading and one bullet for each value.
\<close>

theorem C5_list_blocks:
  "(strings_field a (py ''sections_detected'') sections \<and>
    strings_field a (py ''missing_sections'') missing \<and>
    string_field a (py ''skills_sentiment_summary'') sentiment \<and>
    strings_field a (py ''improvement_suggestions'') suggestions \<and>
    strings_field t (py ''ats_recommendations'') ats_recs \<and>
    strings_field t (py ''jargon_detected'') jargon \<longrightarrow>
    generate_pdf_report repr doc_build (JObj a) structured_data (JObj t) =
      bind (doc_build
              (spec_report
                 (case map_of a (py ''resume_quality_score'') of
                    None \<Rightarrow> py ''N/A''
                  | Some v \<Rightarrow> py_str repr v)
                 sections missing sentiment suggestions ats_recs jargon))
        (\<lambda>pdf. Inr \<lparr>getvalue = pdf, tell = 0\<rparr>) \<and>
    (heading (py ''<b>Missing Sections:</b>'') \<in>
       set (spec_report
              (case map_of a (py ''resume_quality_score'') of
                 None \<Rightarrow> py ''N/A''
               | Some v \<Rightarrow> py_str repr v)
              sections missing sentiment suggestions ats_recs jargon)
     \<longleftrightarrow> missing \<noteq> []) \<and>
    (heading (py ''<b>Improvement Suggestions:</b>'') \<in>
       set (spec_report
              (case map_of a (py ''resume_quality_score'') of
                 None \<Rightarrow> py ''N/A''
               | Some v \<Rightarrow> py_str repr v)
              sections missing sentiment suggestions ats_recs jargon)
     \<longleftrightarrow> suggestions \<noteq> [])) \<and>
   spec_list_block title xs after =
     (if xs = [] then []
      else Paragraph (JStr title) (Stylesheet ''Heading3'') #
           map (\<lambda>x. Paragraph (JStr ([0x2022, 0x20] @ x)) (Stylesheet ''Normal'')) xs @ after) \<and>
   list_block repr title (JArr (map JStr xs)) after = Inr (spec_list_block title xs after) \<and>
   list_block repr title (JArr ys) after =
     Inr (if ys = [] then [] else heading title # map (bullet repr) ys @ after)"
proof (intro conjI impI)
  assume h: "strings_field a (py ''sections_detected'') sections \<and>
    strings_field a (py ''missing_sections'') missing \<and>
    string_field a (py ''skills_sentiment_summary'') sentiment \<and>
    strings_field a (py ''improvement_suggestions'') suggestions \<and>
    strings_field t (py ''ats_recommendations'') ats_recs \<and>
    strings_field t (py ''jargon_detected'') jargon"
  then show "generate_pdf_report repr doc_build (JObj a) structured_data (JObj t) =
      bind (doc_build
              (spec_report
                 (case map_of a (py ''resume_quality_score'') of
                    None \<Rightarrow> py ''N/A''
                  | Some v \<Rightarrow> py_str repr v)
                 sections missing sentiment suggestions ats_recs jargon))
        (\<lambda>pdf. Inr \<lparr>getvalue = pdf, tell = 0\<rparr>)"
    using story_fields [of a sections missing sentiment suggestions t ats_recs jargon repr]
    by (simp add: gpr_eq)
next
  show "spec_list_block title xs after =
     (if xs = [] then []
      else Paragraph (JStr title) (Stylesheet ''Heading3'') #
           map (\<lambda>x. Paragraph (JStr ([0x2022, 0x20] @ x)) (Stylesheet ''Normal'')) xs @ after)"
    by (simp add: spec_list_block_def heading_def spec_bullet_def)
next
  show "list_block repr title (JArr (map JStr xs)) after = Inr (spec_list_block title xs after)"
    by (rule list_block_strings)
next
  show "list_block repr title (JArr ys) after =
     Inr (if ys = [] then [] else heading title # map (bullet repr) ys @ after)"
    by (rule list_block_JArr)
qed (simp_all add: heading_in_report)

theorem C5_list_blocks_witness:
  "generate_pdf_report (\<lambda>v. []) plain_text_engine
     (JObj [(py ''resume_quality_score'', JInt 42),
            (py ''sections_detected'', JArr [JStr (py ''Skills'')]),
            (py ''missing_sections'', JArr [JStr (py ''Certifications'')])])
     JNull (JObj []) =
     Inr \<lparr>getvalue = utf8_encode
            (py ''Resume Analysis Report\<newline><b>Resume Quality Score: 42/100</b>\<newline><b>Sections Detected:</b>\<newline>''
             @ [0x2022, 0x20] @ py ''Skills\<newline><b>Missing Sections:</b>\<newline>''
             @ [0x2022, 0x20] @ py ''Certifications\<newline>''),
          tell = 0\<rparr> \<and>
   generate_pdf_report (\<lambda>v. []) plain_text_engine
     (JObj [(py ''resume_quality_score'', JInt 42),
            (py ''sections_detected'', JArr [JStr (py ''Skills'')]),
            (py ''missing_sections'', JArr [])])
     JNull (JObj []) =
     Inr \<lparr>getvalue = utf8_encode
            (py ''Resume Analysis Report\<newline><b>Resume Quality Score: 42/100</b>\<newline><b>Sections Detected:</b>\<newline>''
             @ [0x2022, 0x20] @ py ''Skills\<newline>''),
          tell = 0\<rparr>"
proof -
  let ?a1 = "[(py ''resume_quality_score'', JInt 42),
            (py ''sections_detected'', JArr [JStr (py ''Skills'')]),
            (py ''missing_sections'', JArr [JStr (py ''Certifications'')])]"
  let ?a0 = "[(py ''resume_quality_score'', JInt 42),
            (py ''sections_detected'', JArr [JStr (py ''Skills'')]),
            (py ''missing_sections'', JArr [])]"
  let ?repr = "\<lambda>v :: json. [] :: pystr"
  have h1:
    "strings_field ?a1 (py ''sections_detected'') [py ''Skills''] \<and>
     strings_field ?a1 (py ''missing_sections'') [py ''Certifications''] \<and>
     string_field ?a1 (py ''skills_sentiment_summary'') [] \<and>
     strings_field ?a1 (py ''improvement_suggestions'') [] \<and>
     strings_field [] (py ''ats_recommendations'') [] \<and>
     strings_field [] (py ''jargon_detected'') []"
    by (simp add: strings_field_def string_field_def py_def)
  have h0:
    "strings_field ?a0 (py ''sections_detected'') [py ''Skills''] \<and>
     strings_field ?a0 (py ''missing_sections'') [] \<and>
     string_field ?a0 (py ''skills_sentiment_summary'') [] \<and>
     strings_field ?a0 (py ''improvement_suggestions'') [] \<and>
     strings_field [] (py ''ats_recommendations'') [] \<and>
     strings_field [] (py ''jargon_detected'') []"
    by (simp add: strings_field_def string_field_def py_def)
  have x1: "(case map_of ?a1 (py ''resume_quality_score'') of
                    None \<Rightarrow> py ''N/A''
                  | Some v \<Rightarrow> py_str ?repr v) = py ''42''"
    by (simp add: py_str_def str_int_def py_def)
  have x0: "(case map_of ?a0 (py ''resume_quality_score'') of
                    None \<Rightarrow> py ''N/A''
                  | Some v \<Rightarrow> py_str ?repr v) = py ''42''"
    by (simp add: py_str_def str_int_def py_def)
  from C5_list_blocks [of ?a1 "[py ''Skills'']" "[py ''Certifications'']" "[]" "[]" "[]" "[]" "[]"
                          ?repr plain_text_engine JNull] h1
  have "generate_pdf_report ?repr plain_text_engine (JObj ?a1) JNull (JObj []) =
      bind (plain_text_engine
              (spec_report
                 (case map_of ?a1 (py ''resume_quality_score'') of
                    None \<Rightarrow> py ''N/A''
                  | Some v \<Rightarrow> py_str ?repr v)
                 [py ''Skills''] [py ''Certifications''] [] [] [] []))
        (\<lambda>pdf. Inr \<lparr>getvalue = pdf, tell = 0\<rparr>)"
    by blast
  then have r1: "generate_pdf_report ?repr plain_text_engine (JObj ?a1) JNull (JObj []) =
     Inr \<lparr>getvalue = utf8_encode
            (py ''Resume Analysis Report\<newline><b>Resume Quality Score: 42/100</b>\<newline><b>Sections Detected:</b>\<newline>''
             @ [0x2022, 0x20] @ py ''Skills\<newline><b>Missing Sections:</b>\<newline>''
             @ [0x2022, 0x20] @ py ''Certifications\<newline>''),
          tell = 0\<rparr>"
    unfolding x1 by (simp add: engine_eval)
  from C5_list_blocks [of ?a0 "[py ''Skills'']" "[]" "[]" "[]" "[]" "[]" "[]"
                          ?repr plain_text_engine JNull] h0
  have "generate_pdf_report ?repr plain_text_engine (JObj ?a0) JNull (JObj []) =
      bind (plain_text_engine
              (spec_report
                 (case map_of ?a0 (py ''resume_quality_score'') of
                    None \<Rightarrow> py ''N/A''
                  | Some v \<Rightarrow> py_str ?repr v)
                 [py ''Skills''] [] [] [] [] []))
        (\<lambda>pdf. Inr \<lparr>getvalue = pdf, tell = 0\<rparr>)"
    by blast
  then have r0: "generate_pdf_report ?repr plain_text_engine (JObj ?a0) JNull (JObj []) =
     Inr \<lparr>getvalue = utf8_encode
            (py ''Resume Analysis Report\<newline><b>Resume Quality Score: 42/100</b>\<newline><b>Sections Detected:</b>\<newline>''
             @ [0x2022, 0x20] @ py ''Skills\<newline>''),
          tell = 0\<rparr>"
    unfolding x0 by (simp add: engine_eval)
  show ?thesis
    using r1 r0 by (rule conjI)
qed




section \<open>The guard on empty text (C4)\<close>

lemma main_blank:
  assumes "extract_text pdf_pages docx_paragraphs uploaded = Inr resume_text"
    and "\<forall>c \<in> set resume_text. isspace c"
  shows "main pdf_pages docx_paragraphs model uploaded st = (ExtractionFailure, st)"
  using assms by (simp add: main_def strip_empty_iff)

lemma main_calls:
  assumes "extract_text pdf_pages docx_paragraphs uploaded = Inr resume_text"
    and "\<not> (\<forall>c \<in> set resume_text. isspace c)"
  shows "main pdf_pages docx_paragraphs model uploaded st =
     (let (feedback_raw, st1) = analyze_resume model resume_text st;
          (structured_raw, st2) = parse_structured_resume model resume_text st1;
          (ats_raw, st3) = detect_jargon_and_ats_issues model resume_text st2
      in (Replies feedback_raw structured_raw ats_raw, st3))"
  using assms by (auto simp: main_def strip_empty_iff)

text \<open>
  C4. When the text extracted from the uploaded file is empty or holds whitespace only,
  the run ends with the extraction failure and the model client is left in the state it
  was in: none of the three calls is made. (Otherwise the three calls are made, in
  order.)
\<close>

theorem C4_blank_text_stops:
  "(extract_text pdf_pages docx_paragraphs uploaded = Inr resume_text \<and>
    (\<forall>c \<in> set resume_text. isspace c) \<longrightarrow>
    main pdf_pages docx_paragraphs model uploaded st = (ExtractionFailure, st)) \<and>
   (extract_text pdf_pages docx_paragraphs uploaded = Inr resume_text \<and>
    \<not> (\<forall>c \<in> set resume_text. isspace c) \<longrightarrow>
    main pdf_pages docx_paragraphs model uploaded st =
      (let (feedback_raw, st1) = analyze_resume model resume_text st;
           (structured_raw, st2) = parse_structured_resume model resume_text st1;
           (ats_raw, st3) = detect_jargon_and_ats_issues model resume_text st2
       in (Replies feedback_raw structured_raw ats_raw, st3)))"
  using main_blank [of pdf_pages docx_paragraphs uploaded resume_text model st]
    main_calls [of pdf_pages docx_paragraphs uploaded resume_text model st]
  by blast

text \<open>
  The witness runs a client that answers \<open>{}\<close> and logs the prompts it is sent: on a text
  file of a space, a newline and a tab the log stays empty; on the file \<open>a\<close> it holds the
  three prompts.
\<close>

theorem C4_blank_text_stops_witness:
  "main (\<lambda>bs. Inl (LibraryError [])) (\<lambda>bs. Inl (LibraryError []))
     (\<lambda>prompt log. (Reply (py ''{}''), log @ [prompt]))
     \<lparr>file_name = py ''cv.txt'', file_bytes = [0x20, 0x0A, 0x09]\<rparr> [] =
     (ExtractionFailure, []) \<and>
   main (\<lambda>bs. Inl (LibraryError [])) (\<lambda>bs. Inl (LibraryError []))
     (\<lambda>prompt log. (Reply (py ''{}''), log @ [prompt]))
     \<lparr>file_name = py ''cv.txt'', file_bytes = [0x61]\<rparr> [] =
     (Replies (py ''{}'') (py ''{}'') (py ''{}''),
      [analyze_prompt (py ''a''), structured_prompt (py ''a''), ats_prompt (py ''a'')])"
proof -
  let ?lib = "\<lambda>bs :: byte list. Inl (LibraryError []) :: exn + pystr list"
  let ?model = "\<lambda>(prompt :: pystr) (log :: pystr list). (Reply (py ''{}''), log @ [prompt])"
  let ?blank = "\<lparr>file_name = py ''cv.txt'', file_bytes = [0x20, 0x0A, 0x09]\<rparr>"
  let ?a = "\<lparr>file_name = py ''cv.txt'', file_bytes = [0x61]\<rparr>"
  have e1: "extract_text ?lib ?lib ?blank = Inr [0x20, 0x0A, 0x09]"
    by (simp add: extract_text_def extract_text_from_txt_def endswith_def startswith_def
        py_def utf8_head_def)
  have w1: "\<forall>c \<in> set [0x20, 0x0A, 0x09]. isspace c"
    by (simp add: isspace_def)
  have e2: "extract_text ?lib ?lib ?a = Inr (py ''a'')"
    by (simp add: extract_text_def extract_text_from_txt_def endswith_def startswith_def
        py_def utf8_head_def)
  have w2: "\<not> (\<forall>c \<in> set (py ''a''). isspace c)"
    by (simp add: isspace_def py_def)
  from C4_blank_text_stops [of ?lib ?lib ?blank "[0x20, 0x0A, 0x09]" ?model "[]"] e1 w1
  have r1: "main ?lib ?lib ?model ?blank [] = (ExtractionFailure, [])"
    by blast
  from C4_blank_text_stops [of ?lib ?lib ?a "py ''a''" ?model "[]"] e2 w2
  have "main ?lib ?lib ?model ?a [] =
      (let (feedback_raw, st1) = analyze_resume ?model (py ''a'') [];
           (structured_raw, st2) = parse_structured_resume ?model (py ''a'') st1;
           (ats_raw, st3) = detect_jargon_and_ats_issues ?model (py ''a'') st2
       in (Replies feedback_raw structured_raw ats_raw, st3))"
    by blast
  also have "\<dots> = (Replies (py ''{}'') (py ''{}'') (py ''{}''),
      [analyze_prompt (py ''a''), structured_prompt (py ''a''), ats_prompt (py ''a'')])"
    by (simp add: analyze_resume_def parse_structured_resume_def
        detect_jargon_and_ats_issues_def strip_def lstrip_def rstrip_def isspace_def py_def)
  finally show ?thesis
    using r1 by (rule conjI [rotated])
qed

section \<open>The error payload of a failed call (C1)\<close>

text \<open>
  The three wrappers catch every exception of the model call and return a string built
  by an f-string around \<open>str(e)\<close>. Where the message holds no double quote, no backslash
  and no control character, that string parses to an object with the one member
  \<open>error\<close>.
\<close>

lemma scanstring_plain:
  "\<forall>c \<in> set e. 0x20 \<le> c \<and> c \<noteq> 0x22 \<and> c \<noteq> 0x5C \<Longrightarrow>
   scanstring (e @ 0x22 # rest) = Inr (e, rest)"
  by (induction e) (simp_all add: prepend_def)

lemma error_object_parses:
  assumes "\<forall>c \<in> set m. 0x20 \<le> c \<and> c \<noteq> 0x22 \<and> c \<noteq> 0x5C"
  shows \<open>json_loads (py ''{"error": "'' @ m @ py ''"}'') = Inr (JObj [(py ''error'', JStr m)])\<close>
proof -
  have s: "scanstring (m @ [0x22, 0x7D]) = Inr (m, [0x7D])"
    using assms by (rule scanstring_plain)
  show ?thesis
    by (simp add: json_loads_def skip_ws_def json_ws_def scan_once.simps parse_object.simps
          dict_def startswith_def py_def prepend_def s)
qed

lemma error_payload_normal:
  \<open>normalize_reply (py ''{"error": "'' @ m @ py ''"}'') = py ''{"error": "'' @ m @ py ''"}''\<close>
proof -
  have \<open>strip (py ''{"error": "'' @ m @ py ''"}'') = py ''{"error": "'' @ m @ py ''"}''\<close>
    by (rule strip_id) (simp_all add: py_def isspace_def)
  moreover have \<open>\<not> startswith (py ''{"error": "'' @ m @ py ''"}'') fence\<close>
    by (simp add: py_def fence_eq startswith_Cons)
  ultimately show ?thesis
    using normalize_unfenced [of \<open>py ''{"error": "'' @ m @ py ''"}''\<close>] by simp
qed

lemma error_payload_parses:
  assumes "\<forall>c \<in> set e. 0x20 \<le> c \<and> c \<noteq> 0x22 \<and> c \<noteq> 0x5C"
    and "model (analyze_prompt resume_text) st = (Raised e, st')"
  shows "parse_reply (fst (analyze_resume model resume_text st)) =
         Inr (JObj [(py ''error'', JStr (py ''Failed to analyze resume: '' @ e))])"
proof -
  have c: "\<forall>c \<in> set (py ''Failed to analyze resume: '' @ e). 0x20 \<le> c \<and> c \<noteq> 0x22 \<and> c \<noteq> 0x5C"
    using assms(1) by (simp add: py_def)
  have r: \<open>fst (analyze_resume model resume_text st) =
           py ''{"error": "'' @ (py ''Failed to analyze resume: '' @ e) @ py ''"}''\<close>
    using assms(2) by (simp add: analyze_resume_def py_def)
  show ?thesis
    unfolding r parse_reply_def error_payload_normal
    using c by (rule error_object_parses)
qed

text \<open>
  C1. The message of the exception is put between the quotes as it is, without JSON
  escaping (lines 62, 114 and 138). For an exception whose message is \<open>Invalid "key"\<close>
  each of the three wrappers returns, without raising, a string that is not a JSON text:
  the parser stops at the quote inside the message and raises \<open>JSONDecodeError\<close>.
\<close>

theorem C1_error_payload_unescaped:
  \<open>fst (analyze_resume (\<lambda>prompt st. (Raised (py ''Invalid "key"''), st)) resume_text st) =
     py ''{"error": "Failed to analyze resume: Invalid "key""}'' \<and>
   parse_reply (py ''{"error": "Failed to analyze resume: Invalid "key""}'') = Inl JSONDecodeError \<and>
   fst (parse_structured_resume (\<lambda>prompt st. (Raised (py ''Invalid "key"''), st)) resume_text st) =
     py ''{"error": "Failed to parse resume: Invalid "key""}'' \<and>
   parse_reply (py ''{"error": "Failed to parse resume: Invalid "key""}'') = Inl JSONDecodeError \<and>
   fst (detect_jargon_and_ats_issues (\<lambda>prompt st. (Raised (py ''Invalid "key"''), st)) resume_text st) =
     py ''{"error": "Failed to analyze jargon/ATS: Invalid "key""}'' \<and>
   parse_reply (py ''{"error": "Failed to analyze jargon/ATS: Invalid "key""}'') = Inl JSONDecodeError\<close>
proof (intro conjI)
  show \<open>fst (analyze_resume (\<lambda>prompt st. (Raised (py ''Invalid "key"''), st)) resume_text st) =
     py ''{"error": "Failed to analyze resume: Invalid "key""}''\<close>
    by (simp add: analyze_resume_def py_def)
next
  show \<open>parse_reply (py ''{"error": "Failed to analyze resume: Invalid "key""}'') = Inl JSONDecodeError\<close>
    by (simp add: parse_reply_def norm_eval json_eval)
next
  show \<open>fst (parse_structured_resume (\<lambda>prompt st. (Raised (py ''Invalid "key"''), st)) resume_text st) =
     py ''{"error": "Failed to parse resume: Invalid "key""}''\<close>
    by (simp add: parse_structured_resume_def py_def)
next
  show \<open>parse_reply (py ''{"error": "Failed to parse resume: Invalid "key""}'') = Inl JSONDecodeError\<close>
    by (simp add: parse_reply_def norm_eval json_eval)
next
  show \<open>fst (detect_jargon_and_ats_issues (\<lambda>prompt st. (Raised (py ''Invalid "key"''), st)) resume_text st) =
     py ''{"error": "Failed to analyze jargon/ATS: Invalid "key""}''\<close>
    by (simp add: detect_jargon_and_ats_issues_def py_def)
next
  show \<open>parse_reply (py ''{"error": "Failed to analyze jargon/ATS: Invalid "key""}'') = Inl JSONDecodeError\<close>
    by (simp add: parse_reply_def norm_eval json_eval)
qed
end
